theory Spec2Isabelle
  imports Main "HOL-Library.Word" "HOL-Library.Sublist" "HOL-Library.Char_ord"
    "HOL-Library.List_Lexorder" "HOL-Library.Product_Lexorder"
begin

section \<open>Override resolver (rule_processing/overrides.py)\<close>

text \<open>The Python exceptions that the modelled functions raise.\<close>

datatype py_error = IndexError | OperationalError | OverflowError | TypeError | ValueError

text \<open>
  The \<open>files\<close> table (database.py, \<open>init_db\<close>) has one row per file hash, its primary
  key. \<open>init_db\<close> creates the table only when it does not exist, so the table of a given
  database has the columns it was created with: \<open>table_columns\<close> lists them, the key aside.
  A row is a \<open>sqlite3.Row\<close> (\<open>get_db_connection\<close> sets the row factory), and its
  subscript raises \<open>IndexError\<close> for a column the table does not have; the field of a row
  for such a column is never read. \<open>force_in_priority_governance\<close> is an INTEGER column,
  a signed 64-bit value. The other four columns hold JSON text; the
  model keeps, for each, what \<open>json.loads\<close> makes of it: \<open>BadJson\<close> when it raises
  \<open>JSONDecodeError\<close>, \<open>Json v\<close> when it returns \<open>v\<close>. The same record type, with plain
  values in every place, is the \<open>state\<close> dictionary of \<open>update_state_after_success\<close>.
\<close>

datatype 'a json_column = BadJson | Json 'a

record ('p, 'l, 'm) files_record =
  rules_in_application :: 'l
  force_in_priority_governance :: 'p
  correct_placement :: 'l
  affected_rating_services :: 'l
  rating_priority_governance :: 'm

type_synonym file_row =
  "(64 word, string list json_column, (string \<rightharpoonup> int) json_column) files_record"
type_synonym file_state = "(int, string list, string \<rightharpoonup> int) files_record"

record files_table =
  table_columns :: "string list"
  table_rows :: "string \<rightharpoonup> file_row"

text \<open>\<open>row[column]\<close> for a row of the table, where \<open>v\<close> is the row's field for the column.\<close>

definition subscript :: "files_table \<Rightarrow> string \<Rightarrow> 'a \<Rightarrow> py_error + 'a" where
  "subscript files column v = (if column \<in> set (table_columns files) then Inr v else Inl IndexError)"

text \<open>The part of \<open>RuleExecutionContext\<close> (context.py) that the resolver reads.\<close>

record action =
  rating_service_key :: "string option"
  destination_service_keys :: "string list"

record ctx =
  rule_id :: string
  override_bypass_list :: "string list"
  rule_importance :: int
  action_type :: string
  action :: action

text \<open>
  The second component of the result of \<open>check_override\<close> is a message; the messages
  that interpolate a priority keep it as an argument.
\<close>

datatype reason =
    Override_bypassed
  | Action_type_not_governed
  | File_not_tracked
  | Corrupted_state
  | Missing_service_key
  | Rating_already_won int
  | Force_in_governs int
  | Force_in_already_won int
  | Empty_reason

definition governed_types :: "string list" where
  "governed_types = [''add_to'', ''force_in'', ''modify_rating'']"

text \<open>
  The \<open>try\<close> block of \<open>check_override\<close> reads two columns; its handler catches
  \<open>KeyError\<close> and \<open>JSONDecodeError\<close>, so the \<open>IndexError\<close> of a missing column leaves the
  function.
\<close>

definition check_override ::
  "ctx \<Rightarrow> files_table \<Rightarrow> string \<Rightarrow> py_error + string \<times> reason option" where
  "check_override c files file_hash =
    (if rule_id c \<in> set (override_bypass_list c) then Inr (''run'', Some Override_bypassed)
     else if action_type c \<notin> set governed_types then Inr (''run'', Some Action_type_not_governed)
     else case table_rows files file_hash of
       None \<Rightarrow> Inr (''run'', Some File_not_tracked)
     | Some row \<Rightarrow>
        (case subscript files ''force_in_priority_governance'' (force_in_priority_governance row) of
           Inl e \<Rightarrow> Inl e
         | Inr force_in_priority_column \<Rightarrow>
        (case subscript files ''rating_priority_governance'' (rating_priority_governance row) of
           Inl e \<Rightarrow> Inl e
         | Inr BadJson \<Rightarrow> Inr (''run'', Some Corrupted_state)
         | Inr (Json rating_priority) \<Rightarrow>
            (let force_in_priority = sint force_in_priority_column in
             if action_type c = ''modify_rating'' then
               (case rating_service_key (action c) of
                  None \<Rightarrow> Inr (''run'', Some Missing_service_key)
                | Some k \<Rightarrow>
                   if k = [] then Inr (''run'', Some Missing_service_key)
                   else
                     (let winning_priority = (case rating_priority k of None \<Rightarrow> - 1 | Some v \<Rightarrow> v)
                      in if rule_importance c > winning_priority then Inr (''run'', None)
                         else Inr (''skipped'', Some (Rating_already_won winning_priority))))
             else if action_type c = ''add_to'' then
               (if rule_importance c \<ge> force_in_priority then Inr (''run'', None)
                else Inr (''skipped'', Some (Force_in_governs force_in_priority)))
             else if action_type c = ''force_in'' then
               (if rule_importance c > force_in_priority then Inr (''run'', None)
                else Inr (''skipped'', Some (Force_in_already_won force_in_priority)))
             else Inr (''skipped'', Some Empty_reason)))))"

definition get_default_file_state :: file_state where
  "get_default_file_state =
    \<lparr>rules_in_application = [], force_in_priority_governance = - 1, correct_placement = [],
     affected_rating_services = [], rating_priority_governance = Map.empty\<rparr>"

text \<open>
  The \<open>try\<close> block of \<open>update_state_after_success\<close> builds the state dictionary entry
  by entry, in this order. A column that does not parse ends it with the handler's
  default state (\<open>Inr None\<close> here); a missing column ends it with \<open>IndexError\<close>, which the
  handler does not catch.
\<close>

definition load_state :: "files_table \<Rightarrow> file_row \<Rightarrow> py_error + file_state option" where
  "load_state files row =
    (case subscript files ''rules_in_application'' (rules_in_application row) of
       Inl e \<Rightarrow> Inl e
     | Inr BadJson \<Rightarrow> Inr None
     | Inr (Json ra) \<Rightarrow>
    (case subscript files ''force_in_priority_governance'' (force_in_priority_governance row) of
       Inl e \<Rightarrow> Inl e
     | Inr fp \<Rightarrow>
    (case subscript files ''correct_placement'' (correct_placement row) of
       Inl e \<Rightarrow> Inl e
     | Inr BadJson \<Rightarrow> Inr None
     | Inr (Json cp) \<Rightarrow>
    (case subscript files ''affected_rating_services'' (affected_rating_services row) of
       Inl e \<Rightarrow> Inl e
     | Inr BadJson \<Rightarrow> Inr None
     | Inr (Json ars) \<Rightarrow>
    (case subscript files ''rating_priority_governance'' (rating_priority_governance row) of
       Inl e \<Rightarrow> Inl e
     | Inr BadJson \<Rightarrow> Inr None
     | Inr (Json rpg) \<Rightarrow>
         Inr (Some \<lparr>rules_in_application = ra, force_in_priority_governance = sint fp,
                    correct_placement = cp, affected_rating_services = ars,
                    rating_priority_governance = rpg\<rparr>))))))"

definition initial_state :: "files_table \<Rightarrow> string \<Rightarrow> py_error + file_state" where
  "initial_state files file_hash =
    (case table_rows files file_hash of
       None \<Rightarrow> Inr get_default_file_state
     | Some row \<Rightarrow>
        (case load_state files row of
           Inl e \<Rightarrow> Inl e
         | Inr None \<Rightarrow> Inr get_default_file_state
         | Inr (Some s) \<Rightarrow> Inr s))"

definition append_if_absent :: "'a \<Rightarrow> 'a list \<Rightarrow> 'a list" where
  "append_if_absent x xs = (if x \<in> set xs then xs else xs @ [x])"

definition add_destination :: "string \<Rightarrow> string list \<Rightarrow> string list" where
  "add_destination key placement =
    (if key \<noteq> [] \<and> key \<notin> set placement then placement @ [key] else placement)"

definition mutate_state :: "ctx \<Rightarrow> file_state \<Rightarrow> file_state" where
  "mutate_state c s0 =
    (let s = s0\<lparr>rules_in_application := append_if_absent (rule_id c) (rules_in_application s0)\<rparr>
     in if action_type c = ''modify_rating'' then
          (case rating_service_key (action c) of
             None \<Rightarrow> s
           | Some k \<Rightarrow>
              if k = [] then s
              else s\<lparr>affected_rating_services := append_if_absent k (affected_rating_services s),
                     rating_priority_governance :=
                       (rating_priority_governance s)(k \<mapsto> rule_importance c)\<rparr>)
        else if action_type c = ''add_to'' then
          s\<lparr>correct_placement :=
              fold add_destination (destination_service_keys (action c)) (correct_placement s)\<rparr>
        else if action_type c = ''force_in'' then
          s\<lparr>correct_placement := filter (\<lambda>key. key \<noteq> []) (destination_service_keys (action c)),
             force_in_priority_governance := rule_importance c\<rparr>
        else s)"

text \<open>
  The INSERT OR REPLACE statement names the six columns below besides the key, and
  SQLite refuses it (\<open>OperationalError\<close>) when the table lacks one. Then the parameters
  are bound: the priority must fit SQLite's 64-bit INTEGER, or the binding raises
  \<open>OverflowError\<close>; the JSON columns are written by \<open>json.dumps\<close>.
\<close>

definition insert_columns :: "string list" where
  "insert_columns =
    [''rules_in_application'', ''force_in_priority_governance'', ''correct_placement'',
     ''affected_rating_services'', ''rating_priority_governance'', ''last_updated'']"

definition sqlite_integer :: "int \<Rightarrow> bool" where
  "sqlite_integer n \<longleftrightarrow> - (2 ^ 63) \<le> n \<and> n < 2 ^ 63"

definition store_state :: "file_state \<Rightarrow> file_row" where
  "store_state s =
    \<lparr>rules_in_application = Json (rules_in_application s),
     force_in_priority_governance = word_of_int (force_in_priority_governance s),
     correct_placement = Json (correct_placement s),
     affected_rating_services = Json (affected_rating_services s),
     rating_priority_governance = Json (rating_priority_governance s)\<rparr>"

definition update_state_after_success ::
  "ctx \<Rightarrow> files_table \<Rightarrow> string \<Rightarrow> py_error + files_table" where
  "update_state_after_success c files file_hash =
    (if action_type c \<notin> set governed_types then Inr files
     else case initial_state files file_hash of
       Inl e \<Rightarrow> Inl e
     | Inr s0 \<Rightarrow>
        (let state = mutate_state c s0 in
         if \<not> set insert_columns \<subseteq> set (table_columns files) then Inl OperationalError
         else if \<not> sqlite_integer (force_in_priority_governance state) then Inl OverflowError
         else Inr (files\<lparr>table_rows := (table_rows files)(file_hash \<mapsto> store_state state)\<rparr>)))"

text \<open>
  What the orchestrator does with one file (orchestrator.py, steps 4 and 5): the file is
  a candidate when \<open>check_override\<close> does not answer \<open>skipped\<close>, and the state is updated
  when the action on it succeeded (\<open>ok\<close>). An exception ends the execution of the rule
  (\<open>execute_single_rule\<close> catches it), with the row of the file as it was.
\<close>

definition process_file :: "bool \<Rightarrow> ctx \<Rightarrow> files_table \<Rightarrow> string \<Rightarrow> py_error + files_table" where
  "process_file ok c files file_hash =
    (case check_override c files file_hash of
       Inl e \<Rightarrow> Inl e
     | Inr (status, reason) \<Rightarrow>
         if status = ''skipped'' then Inr files
         else if ok then update_state_after_success c files file_hash
         else Inr files)"

text \<open>The stored rating priority of a service, \<open>- 1\<close> when nothing readable is stored.\<close>

definition rating_priority :: "files_table \<Rightarrow> string \<Rightarrow> string \<Rightarrow> int" where
  "rating_priority files file_hash svc =
    (case table_rows files file_hash of
       None \<Rightarrow> - 1
     | Some row \<Rightarrow>
        (case rating_priority_governance row of
           BadJson \<Rightarrow> - 1
         | Json m \<Rightarrow> (case m svc of None \<Rightarrow> - 1 | Some v \<Rightarrow> v)))"

text \<open>
  Successive rule executions touching one file, each with the outcome of its action;
  after a rule that ended with an exception the next one finds the table as it was.
\<close>

fun process_rules :: "(bool \<times> ctx) list \<Rightarrow> files_table \<Rightarrow> string \<Rightarrow> files_table" where
  "process_rules [] files file_hash = files"
| "process_rules ((ok, c) # rest) files file_hash =
     process_rules rest
       (case process_file ok c files file_hash of Inl e \<Rightarrow> files | Inr files' \<Rightarrow> files')
       file_hash"

text \<open>A stored row, a table and a rule used to evaluate the resolver on concrete inputs.\<close>

definition example_row :: file_row where
  "example_row =
    \<lparr>rules_in_application = Json [''r0''], force_in_priority_governance = 5,
     correct_placement = Json [''a''], affected_rating_services = Json [],
     rating_priority_governance = Json [''svc'' \<mapsto> 5]\<rparr>"

definition example_table :: "file_row \<Rightarrow> files_table" where
  "example_table row = \<lparr>table_columns = insert_columns, table_rows = [''h'' \<mapsto> row]\<rparr>"

definition example_rule :: "string \<Rightarrow> int \<Rightarrow> string \<Rightarrow> ctx" where
  "example_rule rid importance atype =
    \<lparr>rule_id = rid, override_bypass_list = [], rule_importance = importance,
     action_type = atype,
     action = \<lparr>rating_service_key = Some ''svc'', destination_service_keys = [''b'']\<rparr>\<rparr>"

subsection \<open>Properties of the override resolver\<close>

lemma example_rule_simps:
  "rule_id (example_rule rid importance atype) = rid"
  "override_bypass_list (example_rule rid importance atype) = []"
  "rule_importance (example_rule rid importance atype) = importance"
  "action_type (example_rule rid importance atype) = atype"
  "rating_service_key (action (example_rule rid importance atype)) = Some ''svc''"
  "destination_service_keys (action (example_rule rid importance atype)) = [''b'']"
  by (simp_all add: example_rule_def)

lemma example_row_simps:
  "sint (force_in_priority_governance example_row) = 5"
  "correct_placement example_row = Json [''a'']"
  "rating_priority_governance example_row = Json [''svc'' \<mapsto> 5]"
  by (simp_all add: example_row_def)

lemma example_table_simps:
  "table_rows (example_table row) ''h'' = Some row"
  "''force_in_priority_governance'' \<in> set (table_columns (example_table row))"
  "''rating_priority_governance'' \<in> set (table_columns (example_table row))"
  "set insert_columns \<subseteq> set (table_columns (example_table row))"
  by (simp_all add: example_table_def insert_columns_def)

lemma subscript_present:
  "column \<in> set (table_columns files) \<Longrightarrow> subscript files column v = Inr v"
  by (simp add: subscript_def)

lemma load_state_example_row:
  "load_state (example_table row') example_row =
    Inr (Some \<lparr>rules_in_application = [''r0''], force_in_priority_governance = 5,
          correct_placement = [''a''], affected_rating_services = [],
          rating_priority_governance = [''svc'' \<mapsto> 5]\<rparr>)"
  by (simp add: load_state_def example_row_def example_table_def insert_columns_def
      subscript_def)

lemma sint_sqlite_integer: "sqlite_integer n \<Longrightarrow> sint (word_of_int n :: 64 word) = n"
  unfolding sqlite_integer_def sint_sbintrunc'
  by (rule signed_take_bit_int_eq_self) simp_all

lemma sqlite_integer_sint: "sqlite_integer (sint (w :: 64 word))"
  unfolding sqlite_integer_def using sint_ge[of w] sint_lt[of w] by simp

text \<open>
  The keys that \<open>add_to\<close> appends: each non-empty destination key that the placement does
  not hold yet, once, in the order of its first occurrence.
\<close>

lemma first_occurrences_Cons:
  "rev (remdups (rev (x # xs))) = x # rev (remdups (rev (filter (\<lambda>y. y \<noteq> x) xs)))"
proof -
  have "remdups (rev xs @ [x]) = remdups (filter (\<lambda>y. y \<noteq> x) (rev xs)) @ [x]"
    by (induction xs rule: rev_induct) auto
  then show ?thesis by (simp add: rev_filter)
qed

lemma fold_add_destination:
  "fold add_destination ks p =
     p @ rev (remdups (rev (filter (\<lambda>key. key \<noteq> [] \<and> key \<notin> set p) ks)))"
proof (induction ks arbitrary: p)
  case Nil
  show ?case by simp
next
  case (Cons k ks)
  show ?case
  proof (cases "k \<noteq> [] \<and> k \<notin> set p")
    case True
    let ?P = "\<lambda>key. key \<noteq> [] \<and> key \<notin> set p"
    have f: "filter (\<lambda>key. key \<noteq> [] \<and> key \<notin> set (p @ [k])) ks =
        filter (\<lambda>y. y \<noteq> k) (filter ?P ks)"
      by (auto intro: filter_cong)
    from True have "filter ?P (k # ks) = k # filter ?P ks" by simp
    then have r: "rev (remdups (rev (filter ?P (k # ks)))) =
        k # rev (remdups (rev (filter (\<lambda>y. y \<noteq> k) (filter ?P ks))))"
      by (simp only: first_occurrences_Cons)
    from True have "fold add_destination (k # ks) p = fold add_destination ks (p @ [k])"
      by (simp add: add_destination_def)
    also have "\<dots> = (p @ [k]) @
        rev (remdups (rev (filter (\<lambda>key. key \<noteq> [] \<and> key \<notin> set (p @ [k])) ks)))"
      by (rule Cons.IH)
    finally have l: "fold add_destination (k # ks) p =
        (p @ [k]) @ rev (remdups (rev (filter (\<lambda>y. y \<noteq> k) (filter ?P ks))))"
      unfolding f .
    show ?thesis unfolding l r by simp
  next
    case False
    then have "fold add_destination (k # ks) p = fold add_destination ks p"
      by (auto simp: add_destination_def)
    with False show ?thesis by (auto simp: Cons.IH)
  qed
qed

text \<open>
  C1 (as amended). For a file whose row exists with \<open>force_in_priority_governance = p\<close>
  and whose \<open>rating_priority_governance\<close> column parses, in a table that has both
  columns, and a rule that is not in the bypass list: an \<open>add_to\<close> action runs exactly
  when the rule's importance is at least \<open>p\<close>, a \<open>force_in\<close> action runs exactly when it
  is strictly greater than \<open>p\<close>, and otherwise the answer is \<open>skipped\<close> with a reason.
\<close>

theorem check_override_placement_asymmetry:
  assumes "table_rows files file_hash = Some row"
    and "''force_in_priority_governance'' \<in> set (table_columns files)"
    and "''rating_priority_governance'' \<in> set (table_columns files)"
    and "rating_priority_governance row = Json rpg"
    and "sint (force_in_priority_governance row) = p"
    and "rule_id c \<notin> set (override_bypass_list c)"
  shows "\<exists>status reason. check_override c files file_hash = Inr (status, reason)
       \<and> (action_type c = ''add_to'' \<longrightarrow> (status = ''run'') = (p \<le> rule_importance c))
       \<and> (action_type c = ''force_in'' \<longrightarrow> (status = ''run'') = (p < rule_importance c))
       \<and> (action_type c = ''add_to'' \<or> action_type c = ''force_in'' \<longrightarrow>
           status \<noteq> ''run'' \<longrightarrow> status = ''skipped'' \<and> reason \<noteq> None)"
  using assms
  by (auto simp: check_override_def governed_types_def subscript_def Let_def
      split: option.splits)

theorem check_override_placement_asymmetry_witness:
  "(\<exists>reason. check_override (example_rule ''r1'' 5 ''add_to'') (example_table example_row) ''h''
      = Inr (''run'', reason))
   \<and> (\<exists>reason. check_override (example_rule ''r1'' 5 ''force_in'') (example_table example_row) ''h''
      = Inr (''skipped'', reason) \<and> reason \<noteq> None)"
proof -
  have 6: "rule_id (example_rule ''r1'' 5 t) \<notin> set (override_bypass_list (example_rule ''r1'' 5 t))"
    for t by (simp add: example_rule_simps)
  note t = check_override_placement_asymmetry
      [where files = "example_table example_row" and file_hash = "''h''",
       OF example_table_simps(1) example_table_simps(2) example_table_simps(3)
         example_row_simps(3) example_row_simps(1) 6, unfolded example_rule_simps]
  have a: "\<exists>reason. check_override (example_rule ''r1'' 5 ''add_to'') (example_table example_row) ''h''
      = Inr (''run'', reason)"
    using t [of "''add_to''"] by auto
  have b: "\<exists>reason. check_override (example_rule ''r1'' 5 ''force_in'') (example_table example_row) ''h''
      = Inr (''skipped'', reason) \<and> reason \<noteq> None"
    using t [of "''force_in''"] by auto
  from a b show ?thesis ..
qed

text \<open>
  C1 as stated fails: the row below has \<open>force_in_priority_governance = 5\<close>, the
  \<open>force_in\<close> rule has importance 1 and is not bypassed, and the answer is \<open>run\<close>, because
  the row's \<open>rating_priority_governance\<close> text is not JSON.
\<close>

theorem check_override_corrupted_counterexample:
  "check_override (example_rule ''r1'' 1 ''force_in'')
     (example_table (example_row\<lparr>rating_priority_governance := BadJson\<rparr>)) ''h''
     = Inr (''run'', Some Corrupted_state)
   \<and> sint (force_in_priority_governance (example_row\<lparr>rating_priority_governance := BadJson\<rparr>)) = 5
   \<and> rule_importance (example_rule ''r1'' 1 ''force_in'') = 1
   \<and> ''r1'' \<notin> set (override_bypass_list (example_rule ''r1'' 1 ''force_in''))"
  by code_simp

text \<open>
  When both columns are there and the stored rating priorities do not parse,
  \<open>check_override\<close> answers \<open>run\<close>, whatever the rule.
\<close>

lemma check_override_invalid_json:
  assumes "table_rows files file_hash = Some row"
    and "''force_in_priority_governance'' \<in> set (table_columns files)"
    and "''rating_priority_governance'' \<in> set (table_columns files)"
    and "rating_priority_governance row = BadJson"
  shows "\<exists>reason. check_override c files file_hash = Inr (''run'', reason)"
  using assms by (simp add: check_override_def subscript_def)

text \<open>
  C10 fails for a missing column. The handler of \<open>check_override\<close> names \<open>KeyError\<close> for
  it, but the subscript of a \<open>sqlite3.Row\<close> raises \<open>IndexError\<close>: on a table created
  without the \<open>rating_priority_governance\<close> column the function raises instead of
  answering \<open>run\<close>, for a rule that the same row with unreadable JSON lets run.
\<close>

theorem check_override_missing_column:
  "check_override (example_rule ''r1'' 0 ''add_to'')
     ((example_table example_row)
        \<lparr>table_columns := remove1 ''rating_priority_governance'' insert_columns\<rparr>) ''h''
     = Inl IndexError
   \<and> check_override (example_rule ''r1'' 0 ''add_to'')
       (example_table (example_row\<lparr>rating_priority_governance := BadJson\<rparr>)) ''h''
     = Inr (''run'', Some Corrupted_state)"
  by code_simp

lemma initial_state_full_table:
  assumes "set insert_columns \<subseteq> set (table_columns files)"
  shows "\<exists>s0. initial_state files file_hash = Inr s0"
proof -
  have cols: "c' \<in> set insert_columns \<Longrightarrow> subscript files c' v = Inr v" for c' and v :: 'v
    using assms by (auto simp: subscript_def)
  show ?thesis
    by (auto simp: initial_state_def load_state_def cols insert_columns_def
        split: option.splits json_column.splits sum.splits)
qed

text \<open>
  C2 (as amended), on a table that has the columns of the INSERT. After
  \<open>update_state_after_success\<close> for a \<open>force_in\<close> rule whose importance fits SQLite's
  64-bit INTEGER, the row's placement is exactly the rule's non-empty destination keys
  and its force-in priority is the rule's importance. For an \<open>add_to\<close> rule on a file
  whose row parses, the new placement is the previous one followed by the rule's
  non-empty destination keys that it did not hold, each once, in the order of their
  first occurrence, and the force-in priority is unchanged; on a file with no row the
  placement is those of the rule's non-empty destination keys and the priority is the
  default \<open>- 1\<close>.
\<close>

theorem update_state_after_success_placement:
  assumes "set insert_columns \<subseteq> set (table_columns files)"
  shows
  "(action_type c = ''force_in'' \<longrightarrow> sqlite_integer (rule_importance c) \<longrightarrow>
      (\<exists>files' row'. update_state_after_success c files file_hash = Inr files'
        \<and> table_rows files' file_hash = Some row'
        \<and> correct_placement row' =
            Json (filter (\<lambda>key. key \<noteq> []) (destination_service_keys (action c)))
        \<and> sint (force_in_priority_governance row') = rule_importance c))
   \<and> (action_type c = ''add_to'' \<longrightarrow> table_rows files file_hash = Some row \<longrightarrow>
        load_state files row = Inr (Some s) \<longrightarrow>
      (\<exists>files' row'. update_state_after_success c files file_hash = Inr files'
        \<and> table_rows files' file_hash = Some row'
        \<and> correct_placement row = Json (correct_placement s)
        \<and> correct_placement row' =
            Json (correct_placement s @
                  rev (remdups (rev (filter (\<lambda>key. key \<noteq> [] \<and> key \<notin> set (correct_placement s))
                                       (destination_service_keys (action c))))))
        \<and> force_in_priority_governance row' = force_in_priority_governance row))
   \<and> (action_type c = ''add_to'' \<longrightarrow> table_rows files file_hash = None \<longrightarrow>
      (\<exists>files' row'. update_state_after_success c files file_hash = Inr files'
        \<and> table_rows files' file_hash = Some row'
        \<and> correct_placement row' =
            Json (rev (remdups (rev (filter (\<lambda>key. key \<noteq> [])
                                       (destination_service_keys (action c))))))
        \<and> sint (force_in_priority_governance row') = - 1))"
proof (intro conjI impI)
  have cols: "c' \<in> set insert_columns \<Longrightarrow> subscript files c' v = Inr v" for c' and v :: 'v
    using assms by (auto simp: subscript_def)
  {
    assume a: "action_type c = ''force_in''" and r: "sqlite_integer (rule_importance c)"
    from initial_state_full_table [OF assms]
    obtain s0 where s0: "initial_state files file_hash = Inr s0" ..
    from a r assms
    show "\<exists>files' row'. update_state_after_success c files file_hash = Inr files'
        \<and> table_rows files' file_hash = Some row'
        \<and> correct_placement row' =
            Json (filter (\<lambda>key. key \<noteq> []) (destination_service_keys (action c)))
        \<and> sint (force_in_priority_governance row') = rule_importance c"
      by (simp add: update_state_after_success_def governed_types_def store_state_def
          mutate_state_def Let_def s0 sint_sqlite_integer)
  }
  {
    assume a: "action_type c = ''add_to''" "table_rows files file_hash = Some row"
      "load_state files row = Inr (Some s)"
    from a(3) have cp: "correct_placement row = Json (correct_placement s)"
      and fp: "force_in_priority_governance s = sint (force_in_priority_governance row)"
      by (auto simp: load_state_def cols insert_columns_def
          split: json_column.splits sum.splits)
    from a have init: "initial_state files file_hash = Inr s" by (simp add: initial_state_def)
    from a(1) assms cp
    show "\<exists>files' row'. update_state_after_success c files file_hash = Inr files'
        \<and> table_rows files' file_hash = Some row'
        \<and> correct_placement row = Json (correct_placement s)
        \<and> correct_placement row' =
            Json (correct_placement s @
                  rev (remdups (rev (filter (\<lambda>key. key \<noteq> [] \<and> key \<notin> set (correct_placement s))
                                       (destination_service_keys (action c))))))
        \<and> force_in_priority_governance row' = force_in_priority_governance row"
      by (simp add: update_state_after_success_def governed_types_def store_state_def
          mutate_state_def Let_def init fold_add_destination fp sqlite_integer_sint)
  }
  {
    assume a: "action_type c = ''add_to''" "table_rows files file_hash = None"
    from a have init: "initial_state files file_hash = Inr get_default_file_state"
      by (simp add: initial_state_def)
    have d: "sqlite_integer (- 1)" by (simp add: sqlite_integer_def)
    from a(1) assms d
    show "\<exists>files' row'. update_state_after_success c files file_hash = Inr files'
        \<and> table_rows files' file_hash = Some row'
        \<and> correct_placement row' =
            Json (rev (remdups (rev (filter (\<lambda>key. key \<noteq> [])
                                       (destination_service_keys (action c))))))
        \<and> sint (force_in_priority_governance row') = - 1"
      by (simp add: update_state_after_success_def governed_types_def store_state_def
          mutate_state_def Let_def init fold_add_destination get_default_file_state_def)
  }
qed

theorem update_state_after_success_placement_witness:
  "(\<exists>files' row'. update_state_after_success (example_rule ''r1'' 7 ''force_in'')
        (example_table example_row) ''h'' = Inr files'
      \<and> table_rows files' ''h'' = Some row'
      \<and> correct_placement row' = Json [''b''] \<and> sint (force_in_priority_governance row') = 7)
   \<and> (\<exists>files' row'. update_state_after_success
          ((example_rule ''r1'' 7 ''add_to'')
             \<lparr>action := \<lparr>rating_service_key = None,
                         destination_service_keys = [''c'', ''a'', [], ''b'', ''c'']\<rparr>\<rparr>)
          (example_table example_row) ''h'' = Inr files'
      \<and> table_rows files' ''h'' = Some row'
      \<and> correct_placement row' = Json [''a'', ''c'', ''b'']
      \<and> sint (force_in_priority_governance row') = 5)
   \<and> (\<exists>files' row'. update_state_after_success (example_rule ''r1'' 7 ''add_to'')
        ((example_table example_row)\<lparr>table_rows := Map.empty\<rparr>) ''h'' = Inr files'
      \<and> table_rows files' ''h'' = Some row'
      \<and> correct_placement row' = Json [''b''] \<and> sint (force_in_priority_governance row') = - 1)"
proof -
  let ?add = "(example_rule ''r1'' 7 ''add_to'')
             \<lparr>action := \<lparr>rating_service_key = None,
                         destination_service_keys = [''c'', ''a'', [], ''b'', ''c'']\<rparr>\<rparr>"
  let ?empty = "(example_table example_row)\<lparr>table_rows := Map.empty\<rparr>"
  have cols: "set insert_columns \<subseteq> set (table_columns (example_table example_row))"
    "set insert_columns \<subseteq> set (table_columns ?empty)"
    by (simp_all add: example_table_def)
  have i: "sqlite_integer 7" by code_simp
  have k: "rev (remdups (rev (filter (\<lambda>key. key \<noteq> [] \<and> key \<notin> set [''a''])
              [''c'', ''a'', [], ''b'', ''c'']))) = [''c'', ''b'']"
    "rev (remdups (rev (filter (\<lambda>key. key \<noteq> []) [''b'']))) = [''b'']"
    by code_simp+
  have at: "action_type ?add = ''add_to''"
    "destination_service_keys (action ?add) = [''c'', ''a'', [], ''b'', ''c'']"
    by (simp_all add: example_rule_def)
  note t = update_state_after_success_placement [where file_hash = "''h''"]
  from t [OF cols(1), of "example_rule ''r1'' 7 ''force_in''" example_row, THEN conjunct1] i
  have a: "\<exists>files' row'. update_state_after_success (example_rule ''r1'' 7 ''force_in'')
        (example_table example_row) ''h'' = Inr files'
      \<and> table_rows files' ''h'' = Some row'
      \<and> correct_placement row' = Json [''b''] \<and> sint (force_in_priority_governance row') = 7"
    by (simp add: example_rule_simps)
  from t [OF cols(1), of ?add example_row, THEN conjunct2, THEN conjunct1,
      rule_format, OF at(1) example_table_simps(1) load_state_example_row]
  have c: "\<exists>files' row'. update_state_after_success ?add (example_table example_row) ''h''
        = Inr files'
      \<and> table_rows files' ''h'' = Some row'
      \<and> correct_placement row' = Json [''a'', ''c'', ''b'']
      \<and> sint (force_in_priority_governance row') = 5"
    unfolding at(2) using example_row_simps(1) by (auto simp: k example_row_simps(2))
  have e: "table_rows ?empty ''h'' = None" by simp
  from t [OF cols(2), of "example_rule ''r1'' 7 ''add_to''" example_row, THEN conjunct2,
      THEN conjunct2, rule_format, OF _ e]
  have d: "\<exists>files' row'. update_state_after_success (example_rule ''r1'' 7 ''add_to'')
        ?empty ''h'' = Inr files'
      \<and> table_rows files' ''h'' = Some row'
      \<and> correct_placement row' = Json [''b''] \<and> sint (force_in_priority_governance row') = - 1"
    by (simp add: example_rule_simps k)
  from a c d show ?thesis by blast
qed

text \<open>
  The write fails when the importance of a \<open>force_in\<close> rule does not fit the INTEGER
  column, and when the table lacks a column of the INSERT.
\<close>

lemma update_state_after_success_overflow:
  assumes "set insert_columns \<subseteq> set (table_columns files)"
    and "action_type c = ''force_in''" and "\<not> sqlite_integer (rule_importance c)"
  shows "update_state_after_success c files file_hash = Inl OverflowError"
proof -
  from initial_state_full_table [OF assms(1)]
  obtain s0 where s0: "initial_state files file_hash = Inr s0" ..
  from assms show ?thesis
    by (simp add: update_state_after_success_def governed_types_def mutate_state_def
        Let_def s0)
qed

lemma update_state_after_success_missing_column:
  assumes "\<not> set insert_columns \<subseteq> set (table_columns files)"
    and "action_type c \<in> set governed_types"
  shows "\<exists>e. update_state_after_success c files file_hash = Inl e"
  using assms
  by (auto simp: update_state_after_success_def Let_def split: sum.splits)

text \<open>
  C2 as stated fails for \<open>add_to\<close>: the row below records placement \<open>[a]\<close> and force-in
  priority 5, but one of its other JSON columns does not parse, so the update starts
  from the default state: the placement \<open>a\<close> is lost and the priority becomes \<open>- 1\<close>.
\<close>

theorem update_state_after_success_corrupt_counterexample:
  "correct_placement (example_row\<lparr>affected_rating_services := BadJson\<rparr>) = Json [''a'']
   \<and> sint (force_in_priority_governance (example_row\<lparr>affected_rating_services := BadJson\<rparr>)) = 5
   \<and> map_sum id (\<lambda>files'. map_option correct_placement (table_rows files' ''h''))
        (update_state_after_success (example_rule ''r1'' 7 ''add_to'')
          (example_table (example_row\<lparr>affected_rating_services := BadJson\<rparr>)) ''h'')
       = Inr (Some (Json [''b'']))
   \<and> map_sum id (\<lambda>files'. map_option (\<lambda>row'. sint (force_in_priority_governance row'))
                            (table_rows files' ''h''))
        (update_state_after_success (example_rule ''r1'' 7 ''add_to'')
          (example_table (example_row\<lparr>affected_rating_services := BadJson\<rparr>)) ''h'')
       = Inr (Some (- 1))"
  by code_simp

text \<open>
  C3 fails on a manual run that bypasses the overrides. The stored rating priority of
  \<open>svc\<close> is 5, so a \<open>modify_rating\<close> rule of importance 1 is skipped. With its id in the
  bypass list the same rule is admitted, and \<open>update_state_after_success\<close>, whose
  comment says that state is not updated for manual runs, stores its importance: the
  priority of \<open>svc\<close> drops to 1, and a rule of importance 3 is admitted next and records
  3 where 5 had been recorded.
\<close>

theorem rating_priority_bypass_lowers:
  "rating_priority (example_table example_row) ''h'' ''svc'' = 5
   \<and> check_override (example_rule ''r1'' 1 ''modify_rating'') (example_table example_row) ''h''
       = Inr (''skipped'', Some (Rating_already_won 5))
   \<and> check_override ((example_rule ''r1'' 1 ''modify_rating'')\<lparr>override_bypass_list := [''r1'']\<rparr>)
         (example_table example_row) ''h'' = Inr (''run'', Some Override_bypassed)
   \<and> rating_priority
        (process_rules
           [(True, (example_rule ''r1'' 1 ''modify_rating'')\<lparr>override_bypass_list := [''r1'']\<rparr>)]
           (example_table example_row) ''h'') ''h'' ''svc'' = 1
   \<and> rating_priority
        (process_rules
           [(True, (example_rule ''r1'' 1 ''modify_rating'')\<lparr>override_bypass_list := [''r1'']\<rparr>),
            (True, example_rule ''r2'' 3 ''modify_rating'')]
           (example_table example_row) ''h'') ''h'' ''svc'' = 3"
  by code_simp


section \<open>Rule order and deep-check cadence (app_config.py, views, scheduler_tasks.py)\<close>

text \<open>
  A merged rule dictionary as \<open>load_rules\<close> builds it, with the keys the ordering and
  the scheduler read. \<open>priority\<close> is \<open>None\<close> when the rule has no such key, and an integer
  otherwise; \<open>atype\<close> is \<open>rule['action']['type']\<close>; \<open>force_in_check_interval_runs\<close> is
  \<open>None\<close> when the stored value is not an integer.
\<close>

record rule =
  id' :: string
  priority :: "int option"
  atype :: string
  creation_timestamp :: string
  force_in_check_frequency :: string
  force_in_check_interval_runs :: "int option"
  run_count :: int

definition should_perform_deep_run :: "rule \<Rightarrow> bool" where
  "should_perform_deep_run r =
    (let frequency = force_in_check_frequency r in
     if frequency = ''always'' then True
     else if frequency = ''never'' then False
     else if frequency = ''every_x_runs'' then
       (case force_in_check_interval_runs r of
          None \<Rightarrow> False
        | Some interval \<Rightarrow>
            if interval \<le> 0 then False
            else (run_count r + 1) mod interval = 0)
     else run_count r = 0)"

definition get_rule_sort_key :: "rule \<Rightarrow> int \<times> int \<times> string" where
  "get_rule_sort_key r =
    (let importance_number = (case priority r of None \<Rightarrow> 1 | Some n \<Rightarrow> n);
         is_not_force_in_flag = (if atype r = ''force_in'' then 0 else 1)
     in (importance_number, is_not_force_in_flag, creation_timestamp r))"

text \<open>Python's \<open>sorted\<close> and \<open>list.sort\<close> are stable, as \<open>sort_key\<close> is.\<close>

definition sort_rules_for_execution :: "rule list \<Rightarrow> rule list" where
  "sort_rules_for_execution rules =
    (if rules = [] then [] else sort_key get_rule_sort_key rules)"

text \<open>
  The three batch paths. Each starts from the list \<open>load_rules\<close> returns, which is
  \<open>sort_rules_for_execution\<close> of the merged rules. The scheduler tick keeps the due
  rules in that order; the two manual routes sort the list again, by
  \<open>r.get('priority', 0)\<close>. In \<open>run_set_route\<close> the set is \<open>None\<close> for the set id \<open>all\<close>.
  Each function gives the rules in the order in which \<open>execute_single_rule\<close> is called
  on them.
\<close>

definition manual_sort_key :: "rule \<Rightarrow> int" where
  "manual_sort_key r = (case priority r of None \<Rightarrow> 0 | Some n \<Rightarrow> n)"

definition tick_order :: "string list \<Rightarrow> rule list \<Rightarrow> rule list" where
  "tick_order rules_to_run_ids merged_rules =
    filter (\<lambda>r. id' r \<in> set rules_to_run_ids) (sort_rules_for_execution merged_rules)"

text \<open>
  \<open>run_all_rules_manual_route\<close> calls \<open>execute_single_rule\<close> without its required
  argument \<open>is_manual_run\<close>: when there is a rule, the list is sorted again, the first
  call raises \<open>TypeError\<close>, the route's handler answers with status 500, and no rule has
  run.
\<close>

definition run_all_rules_manual_route :: "rule list \<Rightarrow> py_error + rule list" where
  "run_all_rules_manual_route merged_rules =
    (let rules = sort_rules_for_execution merged_rules
     in if rules = [] then Inr [] else Inl TypeError)"

definition run_set_order :: "string list option \<Rightarrow> rule list \<Rightarrow> rule list" where
  "run_set_order rule_ids_in_set merged_rules =
    (let all_rules = sort_rules_for_execution merged_rules;
         rules_to_run = (case rule_ids_in_set of
                           None \<Rightarrow> all_rules
                         | Some ids \<Rightarrow> filter (\<lambda>r. id' r \<in> set ids) all_rules)
     in sort_key manual_sort_key rules_to_run)"

definition mk_rule :: "string \<Rightarrow> int option \<Rightarrow> string \<Rightarrow> string \<Rightarrow> rule" where
  "mk_rule i p a t =
    \<lparr>id' = i, priority = p, atype = a, creation_timestamp = t,
     force_in_check_frequency = ''first_run_only'', force_in_check_interval_runs = None,
     run_count = 0\<rparr>"

subsection \<open>Properties of the cadence and of the order\<close>

text \<open>
  C8. The deep-run decision: \<open>always\<close> selects it, \<open>never\<close> does not, \<open>first_run_only\<close>
  selects it exactly when \<open>run_count\<close> is 0, and \<open>every_x_runs\<close> with a positive integer
  \<open>k\<close> selects it exactly when \<open>(run_count + 1) mod k = 0\<close>; a \<open>k\<close> that is not an integer
  or is not positive disables it. For \<open>k = 3\<close> the run counts that select it are
  2, 5, 8, ...
\<close>

theorem should_perform_deep_run_cadence:
  "(force_in_check_frequency r = ''always'' \<longrightarrow> should_perform_deep_run r)
   \<and> (force_in_check_frequency r = ''never'' \<longrightarrow> \<not> should_perform_deep_run r)
   \<and> (force_in_check_frequency r = ''first_run_only'' \<longrightarrow>
        should_perform_deep_run r = (run_count r = 0))
   \<and> (force_in_check_frequency r = ''every_x_runs'' \<longrightarrow>
        (\<forall>k. force_in_check_interval_runs r = Some k \<and> 0 < k \<longrightarrow>
             should_perform_deep_run r = ((run_count r + 1) mod k = 0))
        \<and> (force_in_check_interval_runs r = None
             \<or> (\<exists>k. force_in_check_interval_runs r = Some k \<and> k \<le> 0) \<longrightarrow>
             \<not> should_perform_deep_run r)
        \<and> (force_in_check_interval_runs r = Some 3 \<and> 0 \<le> run_count r \<longrightarrow>
             should_perform_deep_run r = (\<exists>n\<ge>0. run_count r = 3 * n + 2)))"
proof -
  have "((run_count r + 1) mod 3 = 0) = (\<exists>n\<ge>0. run_count r = 3 * n + 2)" if "0 \<le> run_count r"
    using that by presburger
  then show ?thesis
    by (auto simp: should_perform_deep_run_def Let_def)
qed

theorem should_perform_deep_run_cadence_witness:
  "should_perform_deep_run
     ((mk_rule ''r'' (Some 1) ''force_in'' ''2024-01-01 00:00:00'')
        \<lparr>force_in_check_frequency := ''every_x_runs'',
         force_in_check_interval_runs := Some 3, run_count := 5\<rparr>)
   \<and> \<not> should_perform_deep_run
     ((mk_rule ''r'' (Some 1) ''force_in'' ''2024-01-01 00:00:00'')
        \<lparr>force_in_check_frequency := ''every_x_runs'',
         force_in_check_interval_runs := Some 0, run_count := 5\<rparr>)
   \<and> should_perform_deep_run (mk_rule ''r'' (Some 1) ''force_in'' ''2024-01-01 00:00:00'')"
proof -
  let ?r = "mk_rule ''r'' (Some 1) ''force_in'' ''2024-01-01 00:00:00''"
  have f: "force_in_check_frequency ?r = ''first_run_only''" "run_count ?r = 0"
    by (simp_all add: mk_rule_def)
  from should_perform_deep_run_cadence
    [of "?r\<lparr>force_in_check_frequency := ''every_x_runs'',
            force_in_check_interval_runs := Some 3, run_count := 5\<rparr>"]
  have a: "should_perform_deep_run
     (?r\<lparr>force_in_check_frequency := ''every_x_runs'',
         force_in_check_interval_runs := Some 3, run_count := 5\<rparr>)"
    by simp
  from should_perform_deep_run_cadence
    [of "?r\<lparr>force_in_check_frequency := ''every_x_runs'',
            force_in_check_interval_runs := Some 0, run_count := 5\<rparr>"]
  have b: "\<not> should_perform_deep_run
     (?r\<lparr>force_in_check_frequency := ''every_x_runs'',
         force_in_check_interval_runs := Some 0, run_count := 5\<rparr>)"
    by simp
  from should_perform_deep_run_cadence [of ?r] f
  have c: "should_perform_deep_run ?r" by simp
  from a b c show ?thesis by simp
qed

lemma sorted_sort_rules_for_execution:
  "sorted (map get_rule_sort_key (sort_rules_for_execution rules))"
  by (simp add: sort_rules_for_execution_def)

text \<open>The scheduler tick runs the due rules in ascending order of the composite key.\<close>

lemma tick_order_sorted: "sorted (map get_rule_sort_key (tick_order ids rules))"
  unfolding tick_order_def using sorted_sort_rules_for_execution [of rules]
  by (simp add: sorted_map sorted_wrt_filter)

text \<open>
  When every rule carries a priority, the second sort of \<open>run_set_route\<close> changes
  nothing: the list is already sorted by importance, and the sort is stable.
\<close>

lemma run_set_order_with_priorities:
  assumes "\<forall>r \<in> set rules. priority r \<noteq> None"
  shows "run_set_order None rules = sort_rules_for_execution rules"
proof -
  let ?s = "sort_rules_for_execution rules"
  have set: "set ?s = set rules" by (simp add: sort_rules_for_execution_def)
  have m: "map manual_sort_key ?s = map (fst \<circ> get_rule_sort_key) ?s"
    using assms set by (auto simp: manual_sort_key_def get_rule_sort_key_def)
  have "sorted (map (fst \<circ> get_rule_sort_key) ?s)"
    using sorted_sort_rules_for_execution [of rules] unfolding sorted_map
    by (rule sorted_wrt_mono_rel[rotated]) (auto simp: less_eq_prod_def)
  then have "sorted (map manual_sort_key ?s)" unfolding m .
  then have "sort_key manual_sort_key ?s = ?s" by (rule sort_key_id_if_sorted)
  then show ?thesis by (simp add: run_set_order_def)
qed

lemma run_all_rules_manual_route_runs_nothing:
  "run_all_rules_manual_route rules = (if rules = [] then Inr [] else Inl TypeError)"
proof -
  have "set (sort_rules_for_execution rules) = set rules"
    by (simp add: sort_rules_for_execution_def)
  then have "(sort_rules_for_execution rules = []) = (rules = [])"
    by (metis set_empty)
  then show ?thesis by (simp add: run_all_rules_manual_route_def)
qed

text \<open>
  C7 fails on \<open>run_set_route\<close>. Rule \<open>a\<close> has no \<open>priority\<close> key, so its importance is
  the default 1, as for rule \<open>b\<close>; \<open>b\<close> is a \<open>force_in\<close> rule and \<open>a\<close> is not, so \<open>b\<close>
  comes first in the composite order, and the scheduler tick runs \<open>b\<close> first. The set run
  sorts again with the default 0 for a missing priority, and runs \<open>a\<close> first.
\<close>

theorem manual_order_missing_priority:
  "get_rule_sort_key (mk_rule ''b'' (Some 1) ''force_in'' ''2024-01-02 00:00:00'')
     < get_rule_sort_key (mk_rule ''a'' None ''add_to'' ''2024-01-01 00:00:00'')
   \<and> map id' (tick_order [''a'', ''b'']
        [mk_rule ''a'' None ''add_to'' ''2024-01-01 00:00:00'',
         mk_rule ''b'' (Some 1) ''force_in'' ''2024-01-02 00:00:00'']) = [''b'', ''a'']
   \<and> map id' (run_set_order None
        [mk_rule ''a'' None ''add_to'' ''2024-01-01 00:00:00'',
         mk_rule ''b'' (Some 1) ''force_in'' ''2024-01-02 00:00:00'']) = [''a'', ''b'']"
  by code_simp

section \<open>Sequential search splitting (rule_processing/translator.py)\<close>

text \<open>
  An element of the translated predicate list is a string or an OR-group, a list of
  strings.
\<close>


datatype pred = Lit string | AnyOf "string list"

definition is_file_service_predicate :: "string \<Rightarrow> bool" where
  "is_file_service_predicate p \<longleftrightarrow>
     prefix ''system:file service currently in '' p
     \<or> prefix ''system:file service is not currently in '' p"

definition file_service_pred_count :: "string list \<Rightarrow> int" where
  "file_service_pred_count pred_group = int (length (filter is_file_service_predicate pred_group))"

fun find_candidate ::
  "int \<Rightarrow> pred list \<Rightarrow> nat \<Rightarrow> (string list \<times> nat) option \<Rightarrow> (string list \<times> nat) option option"
where
  "find_candidate min_to_split [] i candidate = Some candidate"
| "find_candidate min_to_split (Lit s # rest) i candidate =
     find_candidate min_to_split rest (Suc i) candidate"
| "find_candidate min_to_split (AnyOf pred_group # rest) i candidate =
     (if file_service_pred_count pred_group \<ge> min_to_split then
        (case candidate of
           Some c \<Rightarrow> None
         | None \<Rightarrow> find_candidate min_to_split rest (Suc i) (Some (pred_group, i)))
      else find_candidate min_to_split rest (Suc i) candidate)"

definition prepare_sequential_searches_if_needed :: "pred list \<Rightarrow> int \<Rightarrow> pred list list" where
  "prepare_sequential_searches_if_needed hydrus_predicates min_to_split =
    (case find_candidate min_to_split hydrus_predicates 0 None of
       None \<Rightarrow> [hydrus_predicates]
     | Some None \<Rightarrow> [hydrus_predicates]
     | Some (Some (splittable_group, splittable_group_index)) \<Rightarrow>
        (let static_preds_outside_or_group =
               map snd (filter (\<lambda>(i, p). i \<noteq> splittable_group_index)
                         (enumerate 0 hydrus_predicates));
             common_preds_in_or_group =
               filter (\<lambda>p. \<not> is_file_service_predicate p) splittable_group;
             file_service_preds_for_sequencing =
               filter is_file_service_predicate splittable_group;
             base_predicates = static_preds_outside_or_group @ map Lit common_preds_in_or_group
         in map (\<lambda>file_service_pred. base_predicates @ [Lit file_service_pred])
              file_service_preds_for_sequencing))"


text \<open>An OR-group with at least \<open>m\<close> file-service predicates.\<close>
definition splittable :: "int \<Rightarrow> pred \<Rightarrow> bool" where
  "splittable m p = (case p of Lit s \<Rightarrow> False | AnyOf g \<Rightarrow> m \<le> file_service_pred_count g)"

lemma find_candidate_none:
  "\<forall>p \<in> set ps. \<not> splittable m p \<Longrightarrow> find_candidate m ps i c = Some c"
  by (induction m ps i c rule: find_candidate.induct) (auto simp: splittable_def)

lemma find_candidate_second:
  "\<exists>p \<in> set ps. splittable m p \<Longrightarrow> find_candidate m ps i (Some c) = None"
  by (induction m ps i "Some c" rule: find_candidate.induct) (auto simp: splittable_def)

lemma find_candidate_one:
  assumes "\<forall>p \<in> set before. \<not> splittable m p" "m \<le> file_service_pred_count g"
  shows "find_candidate m (before @ AnyOf g # after) i None =
     (if \<exists>p \<in> set after. splittable m p then None else Some (Some (g, i + length before)))"
  using assms
proof (induction before arbitrary: i)
  case Nil
  then show ?case by (auto simp: find_candidate_none find_candidate_second)
next
  case (Cons p before)
  then show ?case by (cases p) (auto simp: splittable_def)
qed

lemma static_preds:
  "map snd (filter (\<lambda>(i, p). i \<noteq> n + length before) (enumerate n (before @ x # after)))
     = before @ after"
proof (induction before arbitrary: n)
  case Nil
  have "filter (\<lambda>(i, p). i \<noteq> n) (enumerate (Suc n) after) = enumerate (Suc n) after"
    by (rule filter_True) (auto simp: in_set_enumerate_eq)
  then show ?case by simp
next
  case (Cons b before)
  from Cons.IH[of "Suc n"] show ?case by simp
qed


text \<open>
  C6. With the default \<open>min_to_split = 3\<close>: when the predicate list holds exactly one
  OR-group with at least 3 file-service predicates, the result is one query per
  file-service predicate of the group, in order, each made of the predicates outside
  the group, then the group's other members, then that one file-service predicate.
  When no group or more than one group qualifies, the result is the original list as
  the single query.
\<close>

theorem prepare_sequential_searches_split:
  "(\<forall>before g after.
      hydrus_predicates = before @ AnyOf g # after
      \<and> 3 \<le> file_service_pred_count g
      \<and> (\<forall>p \<in> set before \<union> set after. \<not> splittable 3 p) \<longrightarrow>
      prepare_sequential_searches_if_needed hydrus_predicates 3 =
        map (\<lambda>fs. before @ after @ map Lit (filter (\<lambda>p. \<not> is_file_service_predicate p) g) @ [Lit fs])
          (filter is_file_service_predicate g))
   \<and> (length (filter (splittable 3) hydrus_predicates) \<noteq> 1 \<longrightarrow>
      prepare_sequential_searches_if_needed hydrus_predicates 3 = [hydrus_predicates])"
proof (intro conjI allI impI)
  fix before g after
  assume a: "hydrus_predicates = before @ AnyOf g # after \<and> 3 \<le> file_service_pred_count g
      \<and> (\<forall>p \<in> set before \<union> set after. \<not> splittable 3 p)"
  then have fc: "find_candidate 3 hydrus_predicates 0 None = Some (Some (g, length before))"
    by (simp add: find_candidate_one)
  from a have hp: "hydrus_predicates = before @ AnyOf g # after" by simp
  show "prepare_sequential_searches_if_needed hydrus_predicates 3 =
        map (\<lambda>fs. before @ after @ map Lit (filter (\<lambda>p. \<not> is_file_service_predicate p) g) @ [Lit fs])
          (filter is_file_service_predicate g)"
    unfolding prepare_sequential_searches_if_needed_def fc
    using static_preds[of 0 before "AnyOf g" after]
    by (simp add: hp Let_def)
next
  assume n: "length (filter (splittable 3) hydrus_predicates) \<noteq> 1"
  show "prepare_sequential_searches_if_needed hydrus_predicates 3 = [hydrus_predicates]"
  proof (cases "filter (splittable 3) hydrus_predicates")
    case Nil
    then have "\<forall>p \<in> set hydrus_predicates. \<not> splittable 3 p" by (simp add: filter_empty_conv)
    then have "find_candidate 3 hydrus_predicates 0 None = Some None"
      by (rule find_candidate_none)
    then show ?thesis by (simp add: prepare_sequential_searches_if_needed_def)
  next
    case (Cons x xs)
    with n obtain y ys where xs: "xs = y # ys" by (cases xs) auto
    from Cons obtain before after where
      hp: "hydrus_predicates = before @ x # after" and
      b: "\<forall>p \<in> set before. \<not> splittable 3 p" and x: "splittable 3 x" and
      f: "xs = filter (splittable 3) after"
      using filter_eq_ConsD [OF Cons] by blast
    from x obtain g where g: "x = AnyOf g" "3 \<le> file_service_pred_count g"
      by (cases x) (auto simp: splittable_def)
    from f xs have "filter (splittable 3) after = y # ys" by simp
    then have "y \<in> set (filter (splittable 3) after)" by simp
    then have "\<exists>p \<in> set after. splittable 3 p" by auto
    with find_candidate_one[OF b g(2), of after 0]
    have "find_candidate 3 hydrus_predicates 0 None = None" by (simp add: hp g)
    then show ?thesis by (simp add: prepare_sequential_searches_if_needed_def)
  qed
qed


theorem prepare_sequential_searches_split_witness:
  "prepare_sequential_searches_if_needed
     [Lit ''t'',
      AnyOf [''system:file service currently in a'', ''x'',
             ''system:file service currently in b'',
             ''system:file service is not currently in c'',
             ''system:file service currently in d''],
      Lit ''u''] 3
   = [[Lit ''t'', Lit ''u'', Lit ''x'', Lit ''system:file service currently in a''],
      [Lit ''t'', Lit ''u'', Lit ''x'', Lit ''system:file service currently in b''],
      [Lit ''t'', Lit ''u'', Lit ''x'', Lit ''system:file service is not currently in c''],
      [Lit ''t'', Lit ''u'', Lit ''x'', Lit ''system:file service currently in d'']]
   \<and> prepare_sequential_searches_if_needed [Lit ''t'', AnyOf [''x'', ''y'']] 3
       = [[Lit ''t'', AnyOf [''x'', ''y'']]]"
proof -
  let ?g = "[''system:file service currently in a'', ''x'',
             ''system:file service currently in b'',
             ''system:file service is not currently in c'',
             ''system:file service currently in d'']"
  have fs: "filter is_file_service_predicate ?g =
      [''system:file service currently in a'', ''system:file service currently in b'',
       ''system:file service is not currently in c'', ''system:file service currently in d'']"
    "filter (\<lambda>p. \<not> is_file_service_predicate p) ?g = [''x'']"
    by code_simp+
  have c: "file_service_pred_count ?g = 4" by code_simp
  have h: "[Lit ''t'', AnyOf ?g, Lit ''u''] = [Lit ''t''] @ AnyOf ?g # [Lit ''u'']
      \<and> 3 \<le> file_service_pred_count ?g
      \<and> (\<forall>p \<in> set [Lit ''t''] \<union> set [Lit ''u'']. \<not> splittable 3 p)"
    unfolding c by (simp add: splittable_def)
  have n: "length (filter (splittable 3) [Lit ''t'', AnyOf [''x'', ''y'']]) \<noteq> 1"
    by code_simp
  show ?thesis
    using prepare_sequential_searches_split [THEN conjunct1, rule_format, OF h]
      prepare_sequential_searches_split [THEN conjunct2, rule_format, OF n]
    unfolding fs by simp
qed


section \<open>Action executor (rule_processing/actions.py)\<close>

text \<open>
  The remote client is a parameter: a function from its state \<open>'w\<close> and a request to
  an answer (the result dictionary and the status code that \<open>call_hydrus_api\<close> returns)
  and the next state. Every call that reaches the network is appended to a log, with
  its answer. A payload is one of the three shapes the executor sends; the metadata
  of a result is \<open>None\<close> when \<open>data\<close> is not a dictionary, and \<open>data.get('metadata', [])\<close>
  otherwise. Timeouts are left out. A service key is a Python \<open>str\<close>, kept as the list
  of its Unicode code points (\<open>pystr\<close>), because the validation of the destination keys
  depends on which characters are whitespace; \<open>code_points\<close> gives the code points of a
  string of 8-bit characters.
\<close>

type_synonym pystr = "nat list"

definition code_points :: "string \<Rightarrow> pystr" where
  "code_points s = map of_char s"

datatype payload =
    Hashes_payload "string list" pystr
  | Hash_payload string pystr
  | Metadata_params "string list"

record request =
  endpoint :: string
  http_method :: string
  payload :: payload

record meta =
  meta_hash :: "string option"
  current_services :: "pystr list"

record response =
  success :: bool
  message :: "string option"
  metadata :: "meta list option"

type_synonym 'w api = "'w \<Rightarrow> request \<Rightarrow> (response \<times> int) \<times> 'w"
type_synonym call_log = "(request \<times> response \<times> int) list"

definition call_hydrus_api ::
  "'w api \<Rightarrow> string \<Rightarrow> request \<Rightarrow> 'w \<times> call_log \<Rightarrow> (response \<times> int) \<times> ('w \<times> call_log)"
where
  "call_hydrus_api api api_address req st =
    (if api_address = [] then
       ((\<lparr>success = False, message = Some ''Hydrus API address is not configured.'',
          metadata = None\<rparr>, 400), st)
     else
       (let (answer, w') = api (fst st) req
        in (answer, (w', snd st @ [(req, fst answer, snd answer)]))))"

record service =
  service_key :: pystr
  service_type :: "int option"

record exec_ctx =
  api_address :: string
  available_services :: "service list"

datatype 'a err_msg = Message string | Unknown_error_for_item 'a | Address_not_configured

record 'a batch_results =
  successful_items :: "'a list"
  failed_items_with_errors :: "('a \<times> 'a err_msg \<times> int option) list"

definition range_step :: "nat \<Rightarrow> nat \<Rightarrow> nat list" where
  "range_step n step = map (\<lambda>k. k * step) [0 ..< (n + step - 1) div step]"

definition batches :: "'a list \<Rightarrow> nat \<Rightarrow> 'a list list" where
  "batches items_to_process batch_size =
    map (\<lambda>i. take batch_size (drop i items_to_process))
      (range_step (length items_to_process) batch_size)"

definition retry_err_msg :: "response \<Rightarrow> 'a \<Rightarrow> 'a err_msg" where
  "retry_err_msg retry_result single_item =
    (case message retry_result of Some m \<Rightarrow> Message m | None \<Rightarrow> Unknown_error_for_item single_item)"

fun retry_individually ::
  "'w api \<Rightarrow> string \<Rightarrow> string \<Rightarrow> string \<Rightarrow> ('a \<Rightarrow> payload) \<Rightarrow> 'a list \<Rightarrow>
   'a batch_results \<times> ('w \<times> call_log) \<Rightarrow> 'a batch_results \<times> ('w \<times> call_log)"
where
  "retry_individually api addr ep m single_fmt [] acc = acc"
| "retry_individually api addr ep m single_fmt (single_item # rest) (res, st) =
    (let ((retry_result, retry_status), st') =
           call_hydrus_api api addr
             \<lparr>endpoint = ep, http_method = m, payload = single_fmt single_item\<rparr> st
     in retry_individually api addr ep m single_fmt rest
          (if success retry_result
           then (res\<lparr>successful_items := successful_items res @ [single_item]\<rparr>, st')
           else (res\<lparr>failed_items_with_errors := failed_items_with_errors res @
                       [(single_item, retry_err_msg retry_result single_item,
                         Some retry_status)]\<rparr>, st')))"

fun process_batches ::
  "'w api \<Rightarrow> string \<Rightarrow> string \<Rightarrow> string \<Rightarrow> ('a list \<Rightarrow> payload) \<Rightarrow> ('a \<Rightarrow> payload) \<Rightarrow>
   'a list list \<Rightarrow> 'a batch_results \<times> ('w \<times> call_log) \<Rightarrow> 'a batch_results \<times> ('w \<times> call_log)"
where
  "process_batches api addr ep m batch_fmt single_fmt [] acc = acc"
| "process_batches api addr ep m batch_fmt single_fmt (batch_items # rest) (res, st) =
    (if batch_items = [] then process_batches api addr ep m batch_fmt single_fmt rest (res, st)
     else
       (let ((batch_result, batch_status), st') =
              call_hydrus_api api addr
                \<lparr>endpoint = ep, http_method = m, payload = batch_fmt batch_items\<rparr> st
        in process_batches api addr ep m batch_fmt single_fmt rest
             (if success batch_result
              then (res\<lparr>successful_items := successful_items res @ batch_items\<rparr>, st')
              else retry_individually api addr ep m single_fmt batch_items (res, st'))))"

definition batch_api_call_with_retry ::
  "'w api \<Rightarrow> exec_ctx \<Rightarrow> string \<Rightarrow> string \<Rightarrow> 'a list \<Rightarrow> int \<Rightarrow>
   ('a list \<Rightarrow> payload) \<Rightarrow> ('a \<Rightarrow> payload) \<Rightarrow> 'w \<times> call_log \<Rightarrow>
   (py_error + 'a batch_results) \<times> ('w \<times> call_log)"
where
  "batch_api_call_with_retry api c ep m items_to_process batch_size batch_payload_formatter
      single_item_payload_formatter st =
    (if items_to_process = [] then
       (Inr \<lparr>successful_items = [], failed_items_with_errors = []\<rparr>, st)
     else if api_address c = [] then
       (Inr \<lparr>successful_items = [],
             failed_items_with_errors =
               map (\<lambda>item. (item, Address_not_configured, None)) items_to_process\<rparr>, st)
     else if batch_size = 0 then (Inl ValueError, st)
     else if batch_size < 0 then
       (Inr \<lparr>successful_items = [], failed_items_with_errors = []\<rparr>, st)
     else
       (let (res, st') =
              process_batches api (api_address c) ep m batch_payload_formatter
                single_item_payload_formatter (batches items_to_process (nat batch_size))
                (\<lparr>successful_items = [], failed_items_with_errors = []\<rparr>, st)
        in (Inr res, st')))"

text \<open>
  What one batch contributes, given the answer \<open>r\<close> to its bulk call and the answers
  \<open>rs\<close> to the individual retries: the items that succeeded, the items that failed with
  their message and status, and the calls made.
\<close>

type_synonym answer = "response \<times> int"




text \<open>
  The message of a metadata error: the fixed text for a missing API address, or the
  text built from the \<open>message\<close> of the failed call (\<open>None\<close> when the result has none,
  printed as \<open>Unknown API error\<close>).
\<close>

datatype fetch_err_msg = API_address_not_configured | Metadata_fetch_failed "string option"

record meta_error =
  error_message :: fetch_err_msg
  hashes_in_batch :: "string list"
  status_code :: "int option"

fun fetch_batches ::
  "'w api \<Rightarrow> string \<Rightarrow> string list list \<Rightarrow>
   (meta list \<times> meta_error list) \<times> ('w \<times> call_log) \<Rightarrow>
   (meta list \<times> meta_error list) \<times> ('w \<times> call_log)"
where
  "fetch_batches api addr [] acc = acc"
| "fetch_batches api addr (batch_hashes # rest) ((all_files_metadata, metadata_errors_list), st) =
    (let ((result, status), st') =
           call_hydrus_api api addr
             \<lparr>endpoint = ''/get_files/file_metadata'', http_method = ''GET'',
              payload = Metadata_params batch_hashes\<rparr> st
     in fetch_batches api addr rest
          (case (success result, metadata result) of
             (True, Some batch_metadata) \<Rightarrow>
               ((all_files_metadata @ batch_metadata, metadata_errors_list), st')
           | _ \<Rightarrow>
               ((all_files_metadata,
                 metadata_errors_list @
                   [\<lparr>error_message = Metadata_fetch_failed (message result),
                     hashes_in_batch = batch_hashes,
                     status_code = Some status\<rparr>]), st')))"

definition fetch_metadata ::
  "'w api \<Rightarrow> exec_ctx \<Rightarrow> string list \<Rightarrow> int \<Rightarrow> 'w \<times> call_log \<Rightarrow>
   (py_error + meta list \<times> meta_error list) \<times> ('w \<times> call_log)"
where
  "fetch_metadata api c hashes_list batch_size st =
    (if hashes_list = [] then (Inr ([], []), st)
     else if api_address c = [] then
       (Inr ([], [\<lparr>error_message = API_address_not_configured,
                   hashes_in_batch = hashes_list, status_code = None\<rparr>]), st)
     else if batch_size = 0 then (Inl ValueError, st)
     else if batch_size < 0 then (Inr ([], []), st)
     else
       (let (res, st') = fetch_batches api (api_address c) (batches hashes_list (nat batch_size))
                           (([], []), st)
        in (Inr res, st')))"

datatype key_value = Str pystr | Non_string
datatype destination_keys = Not_a_list | Key_list "key_value list"

text \<open>
  \<open>k.strip()\<close> is empty exactly when every character of \<open>k\<close> is whitespace for
  \<open>str.isspace\<close>: the code points below (U+0009 to U+000D, U+001C to U+0020, U+0085,
  U+00A0, U+1680, U+2000 to U+200A, U+2028, U+2029, U+202F, U+205F, U+3000).
\<close>

definition isspace :: "nat \<Rightarrow> bool" where
  "isspace cp \<longleftrightarrow>
     cp \<in> set [9, 10, 11, 12, 13, 28, 29, 30, 31, 32, 133, 160, 5760,
                 8192, 8193, 8194, 8195, 8196, 8197, 8198, 8199, 8200, 8201, 8202,
                 8232, 8233, 8239, 8287, 12288]"

definition is_valid_key :: "key_value \<Rightarrow> bool" where
  "is_valid_key k = (case k of Non_string \<Rightarrow> False | Str s \<Rightarrow> \<exists>ch \<in> set s. \<not> isspace ch)"

definition valid_destination_keys :: "destination_keys \<Rightarrow> bool" where
  "valid_destination_keys keys =
    (case keys of
       Not_a_list \<Rightarrow> False
     | Key_list ks \<Rightarrow> ks \<noteq> [] \<and> (\<forall>k \<in> set ks. is_valid_key k))"

fun key_string :: "key_value \<Rightarrow> pystr" where
  "key_string (Str s) = s"
| "key_string Non_string = []"

fun key_strings :: "destination_keys \<Rightarrow> pystr list" where
  "key_strings (Key_list ks) = map key_string ks"
| "key_strings Not_a_list = []"

datatype err_detail =
    Copy_fail pystr "string err_msg" "int option"
  | Meta_fetch_fail fetch_err_msg "int option"
  | Verify_fail "pystr set" "pystr set"
  | Missing_fresh_metadata
  | Delete_fail pystr "string err_msg" "int option"

type_synonym errors_map = "(string \<times> string \<times> err_detail list) list"

fun record_error :: "string \<Rightarrow> string \<Rightarrow> err_detail \<Rightarrow> errors_map \<Rightarrow> errors_map" where
  "record_error h phase e [] = [(h, phase, [e])]"
| "record_error h phase e ((h', p, es) # rest) =
    (if h' = h then (h', p, es @ [e]) # rest else (h', p, es) # record_error h phase e rest)"

datatype overall_error =
    Invalid_destination_keys destination_keys | No_files_copied | No_files_verified

record force_in_result =
  success' :: bool
  files_fully_successful :: "string list"
  files_with_errors :: errors_map
  initial_candidates :: nat
  copied_phase_success_count :: nat
  verified_phase_success_count :: nat
  deleted_phase_success_count :: nat
  overall_errors :: "overall_error list"

text \<open>
  A Python set of hashes or of service keys is kept as a list without repetitions. Where
  the source iterates over a set, or makes a list of it, the order is Python's own: the
  model takes it from a parameter, one function for each set that is iterated (the
  argument is the list that stands for the set; \<open>to_delete_order\<close> is for the set
  \<open>to_delete_from\<close> of the file named by its first argument).
\<close>

record set_order =
  copied_order :: "string list \<Rightarrow> string list"
  verified_order :: "string list \<Rightarrow> string list"
  to_delete_order :: "string \<Rightarrow> pystr list \<Rightarrow> pystr list"

definition insertion_order :: set_order where
  "insertion_order =
    \<lparr>copied_order = (\<lambda>hs. hs), verified_order = (\<lambda>hs. hs), to_delete_order = (\<lambda>h ks. ks)\<rparr>"

definition truthy_hash :: "meta \<Rightarrow> string option" where
  "truthy_hash m = (case meta_hash m of None \<Rightarrow> None | Some h \<Rightarrow> if h = [] then None else Some h)"

definition candidate_hashes :: "meta list \<Rightarrow> string list" where
  "candidate_hashes files_metadata_list = List.map_filter truthy_hash files_metadata_list"

definition copy_failures ::
  "pystr \<Rightarrow> (string \<times> string err_msg \<times> int option) list \<Rightarrow>
   string list \<times> errors_map \<Rightarrow> string list \<times> errors_map" where
  "copy_failures dest_key failed =
    fold (\<lambda>(h, msg, status) (copied, errs).
            (removeAll h copied, record_error h ''copy'' (Copy_fail dest_key msg status) errs))
      failed"

fun copy_phase ::
  "'w api \<Rightarrow> set_order \<Rightarrow> exec_ctx \<Rightarrow> int \<Rightarrow> pystr list \<Rightarrow>
   (string list \<times> errors_map) \<times> ('w \<times> call_log) \<Rightarrow>
   (py_error + string list \<times> errors_map) \<times> ('w \<times> call_log)"
where
  "copy_phase api ord c batch_size [] (acc, st) = (Inr acc, st)"
| "copy_phase api ord c batch_size (dest_key # rest) ((hashes_copied, errs), st) =
    (if hashes_copied = [] then (Inr (hashes_copied, errs), st)
     else
       (case batch_api_call_with_retry api c ''/add_files/migrate_files'' ''POST''
               (copied_order ord hashes_copied) batch_size (\<lambda>bh. Hashes_payload bh dest_key)
               (\<lambda>sh. Hash_payload sh dest_key) st of
          (Inl e, st') \<Rightarrow> (Inl e, st')
        | (Inr copy_results, st') \<Rightarrow>
            copy_phase api ord c batch_size rest
              (copy_failures dest_key (failed_items_with_errors copy_results)
                 (hashes_copied, errs), st')))"

definition meta_fetch_failures ::
  "meta_error list \<Rightarrow> string list \<times> errors_map \<Rightarrow> string list \<times> errors_map" where
  "meta_fetch_failures meta_errs =
    fold (\<lambda>err. fold (\<lambda>h_err (copied, errs).
                 if h_err \<in> set copied
                 then (removeAll h_err copied,
                       record_error h_err ''verify''
                         (Meta_fetch_fail (error_message err) (status_code err)) errs)
                 else (copied, errs))
               (hashes_in_batch err))
      meta_errs"

definition verify_meta ::
  "pystr list \<Rightarrow> string list \<Rightarrow> meta \<Rightarrow> string list \<times> errors_map \<Rightarrow> string list \<times> errors_map"
where
  "verify_meta dest_keys hashes_copied m = (\<lambda>(verified, errs).
     case truthy_hash m of
       None \<Rightarrow> (verified, errs)
     | Some h \<Rightarrow>
        if h \<notin> set hashes_copied then (verified, errs)
        else if set dest_keys \<subseteq> set (current_services m)
        then (append_if_absent h verified, errs)
        else (verified,
              record_error h ''verify''
                (Verify_fail (set dest_keys - set (current_services m))
                   (set (current_services m))) errs))"

definition meta_map_get :: "meta list \<Rightarrow> string list \<Rightarrow> string \<Rightarrow> meta option" where
  "meta_map_get fresh_meta verified h =
    find (\<lambda>m. meta_hash m = Some h)
      (rev (filter (\<lambda>m. case meta_hash m of None \<Rightarrow> False | Some h' \<Rightarrow> h' \<in> set verified)
              fresh_meta))"

type_synonym deletions = "(pystr \<times> string list) list"

fun add_deletion :: "string \<Rightarrow> pystr \<Rightarrow> deletions \<Rightarrow> deletions" where
  "add_deletion h sk [] = [(sk, [h])]"
| "add_deletion h sk ((sk', hs) # rest) =
    (if sk' = sk then (sk', hs @ [h]) # rest else (sk', hs) # add_deletion h sk rest)"

definition delete_prep ::
  "set_order \<Rightarrow> pystr list \<Rightarrow> pystr list \<Rightarrow> meta list \<Rightarrow> string list \<Rightarrow> string \<Rightarrow>
   string list \<times> errors_map \<times> deletions \<Rightarrow> string list \<times> errors_map \<times> deletions"
where
  "delete_prep ord all_local dest_keys fresh_meta verified0 h_verified = (\<lambda>(verified, errs, dels).
     case meta_map_get fresh_meta verified0 h_verified of
       None \<Rightarrow>
         (removeAll h_verified verified,
          record_error h_verified ''delete_prep'' Missing_fresh_metadata errs, dels)
     | Some meta_obj \<Rightarrow>
         (verified, errs,
          fold (add_deletion h_verified)
            (to_delete_order ord h_verified
               (filter (\<lambda>sk. sk \<in> set all_local \<and> sk \<notin> set dest_keys)
                  (remdups (current_services meta_obj))))
            dels))"

definition delete_failures ::
  "pystr \<Rightarrow> (string \<times> string err_msg \<times> int option) list \<Rightarrow>
   string list \<times> errors_map \<Rightarrow> string list \<times> errors_map" where
  "delete_failures service_key_del failed =
    fold (\<lambda>(h, msg, status) (deleted, errs).
            (removeAll h deleted,
             record_error h ''delete'' (Delete_fail service_key_del msg status) errs))
      failed"

fun delete_phase ::
  "'w api \<Rightarrow> exec_ctx \<Rightarrow> int \<Rightarrow> deletions \<Rightarrow>
   (string list \<times> errors_map) \<times> ('w \<times> call_log) \<Rightarrow>
   (py_error + string list \<times> errors_map) \<times> ('w \<times> call_log)"
where
  "delete_phase api c batch_size [] (acc, st) = (Inr acc, st)"
| "delete_phase api c batch_size ((service_key_del, hashes_on_service) # rest)
      ((hashes_deleted, errs), st) =
    (if hashes_on_service = [] \<or> hashes_deleted = [] then (Inr (hashes_deleted, errs), st)
     else
       (case batch_api_call_with_retry api c ''/add_files/delete_files'' ''POST''
               (filter (\<lambda>h. h \<in> set hashes_deleted) hashes_on_service) batch_size
               (\<lambda>bh. Hashes_payload bh service_key_del)
               (\<lambda>sh. Hash_payload sh service_key_del) st of
          (Inl e, st') \<Rightarrow> (Inl e, st')
        | (Inr delete_results, st') \<Rightarrow>
            delete_phase api c batch_size rest
              (delete_failures service_key_del (failed_items_with_errors delete_results)
                 (hashes_deleted, errs), st')))"

text \<open>
  \<open>force_in_services\<close>, written phase by phase as the source is: the copy loop, then
  \<open>verify_stage\<close> (the source's Phase 2) and \<open>delete_stage\<close> (its Phase 3), each ending
  with the function's \<open>return\<close> for that phase.
\<close>

definition summary ::
  "nat \<Rightarrow> bool \<Rightarrow> string list \<Rightarrow> errors_map \<Rightarrow> nat \<Rightarrow> nat \<Rightarrow> nat \<Rightarrow> overall_error list \<Rightarrow>
   force_in_result" where
  "summary n ok fully errs copied verified deleted overall =
    \<lparr>success' = ok, files_fully_successful = fully, files_with_errors = errs,
     initial_candidates = n, copied_phase_success_count = copied,
     verified_phase_success_count = verified, deleted_phase_success_count = deleted,
     overall_errors = overall\<rparr>"

definition needed_del :: "deletions \<Rightarrow> string \<Rightarrow> bool" where
  "needed_del deletions_by_service h_v =
    (\<exists>h_list \<in> set (map snd deletions_by_service). h_v \<in> set h_list)"

definition delete_stage ::
  "'w api \<Rightarrow> set_order \<Rightarrow> exec_ctx \<Rightarrow> int \<Rightarrow> nat \<Rightarrow> pystr list \<Rightarrow> pystr list \<Rightarrow> nat \<Rightarrow> meta list \<Rightarrow>
   string list \<Rightarrow> errors_map \<Rightarrow> 'w \<times> call_log \<Rightarrow>
   (py_error + force_in_result) \<times> ('w \<times> call_log)"
where
  "delete_stage api ord c batch_size n all_local_service_keys dest_keys copied_count fresh_meta
      hashes_verified errs3 st2 =
    (let verified_count = length hashes_verified;
         (hashes_verified2, errs4, deletions_by_service) =
            fold (delete_prep ord all_local_service_keys dest_keys fresh_meta hashes_verified)
              (verified_order ord hashes_verified) (hashes_verified, errs3, [])
     in
     case delete_phase api c batch_size deletions_by_service
            ((hashes_verified2, errs4), st2) of
       (Inl e, st3) \<Rightarrow> (Inl e, st3)
     | (Inr (hashes_deleted, errs5), st3) \<Rightarrow>
        (let files_fully_successful =
               filter (\<lambda>h_v. \<not> needed_del deletions_by_service h_v
                             \<or> h_v \<in> set hashes_deleted)
                 (verified_order ord hashes_verified2);
             final_success = (length errs5 = 0 \<and> length files_fully_successful = n)
         in (Inr (summary n final_success files_fully_successful errs5 copied_count
                    verified_count (length files_fully_successful) []), st3)))"

definition verify_stage ::
  "'w api \<Rightarrow> set_order \<Rightarrow> exec_ctx \<Rightarrow> int \<Rightarrow> nat \<Rightarrow> pystr list \<Rightarrow> pystr list \<Rightarrow>
   string list \<Rightarrow> errors_map \<Rightarrow> 'w \<times> call_log \<Rightarrow>
   (py_error + force_in_result) \<times> ('w \<times> call_log)"
where
  "verify_stage api ord c batch_size n all_local_service_keys dest_keys hashes_copied errs1 st1 =
    (let copied_count = length hashes_copied in
     case fetch_metadata api c (copied_order ord hashes_copied) 256 st1 of
       (Inl e, st2) \<Rightarrow> (Inl e, st2)
     | (Inr (fresh_meta, meta_errs), st2) \<Rightarrow>
        (let (hashes_copied2, errs2) = meta_fetch_failures meta_errs (hashes_copied, errs1);
             (hashes_verified, errs3) =
               fold (verify_meta dest_keys hashes_copied2) fresh_meta ([], errs2)
         in
         if hashes_verified = [] then
           (Inr (summary n False [] errs3 copied_count 0 0 [No_files_verified]), st2)
         else
           delete_stage api ord c batch_size n all_local_service_keys dest_keys copied_count
             fresh_meta hashes_verified errs3 st2))"

definition force_in_services ::
  "'w api \<Rightarrow> set_order \<Rightarrow> exec_ctx \<Rightarrow> meta list \<Rightarrow> destination_keys \<Rightarrow> int \<Rightarrow> 'w \<times> call_log \<Rightarrow>
   (py_error + force_in_result) \<times> ('w \<times> call_log)"
where
  "force_in_services api ord c files_metadata_list rule_configured_destination_keys batch_size
      st =
    (let n = length files_metadata_list in
     if files_metadata_list = [] then (Inr (summary 0 True [] [] 0 0 0 []), st)
     else if \<not> valid_destination_keys rule_configured_destination_keys then
       (Inr (summary n False [] [] 0 0 0
               [Invalid_destination_keys rule_configured_destination_keys]), st)
     else
       (let dest_keys = key_strings rule_configured_destination_keys;
            all_local_service_keys =
              map service_key (filter (\<lambda>s. service_type s = Some 2) (available_services c))
        in
        case copy_phase api ord c batch_size dest_keys
               ((remdups (candidate_hashes files_metadata_list), []), st) of
          (Inl e, st1) \<Rightarrow> (Inl e, st1)
        | (Inr (hashes_copied, errs1), st1) \<Rightarrow>
            if hashes_copied = [] then
              (Inr (summary n False [] errs1 0 0 0 [No_files_copied]), st1)
            else
              verify_stage api ord c batch_size n all_local_service_keys dest_keys
                hashes_copied errs1 st1))"

text \<open>A small simulated client: the world maps each hash to its current services.\<close>

type_synonym world = "(string \<times> pystr list) list"

definition ok_response :: response where
  "ok_response = \<lparr>success = True, message = None, metadata = None\<rparr>"

definition error_response :: "string \<Rightarrow> response" where
  "error_response msg = \<lparr>success = False, message = Some msg, metadata = None\<rparr>"

definition sim_migrate :: "string list \<Rightarrow> pystr \<Rightarrow> world \<Rightarrow> world" where
  "sim_migrate hs k w = map (\<lambda>(h, ss). (h, if h \<in> set hs then append_if_absent k ss else ss)) w"

definition sim_delete :: "string list \<Rightarrow> pystr \<Rightarrow> world \<Rightarrow> world" where
  "sim_delete hs k w = map (\<lambda>(h, ss). (h, if h \<in> set hs then removeAll k ss else ss)) w"

definition sim_meta :: "world \<Rightarrow> string \<Rightarrow> meta" where
  "sim_meta w h = \<lparr>meta_hash = Some h,
     current_services = (case map_of w h of None \<Rightarrow> [] | Some ss \<Rightarrow> ss)\<rparr>"

definition sim_api :: "world api" where
  "sim_api w req =
    (case payload req of
       Metadata_params hs \<Rightarrow>
         ((\<lparr>success = True, message = None, metadata = Some (map (sim_meta w) hs)\<rparr>, 200), w)
     | Hashes_payload hs k \<Rightarrow>
         if ''B'' \<in> set hs then ((error_response ''bad file in batch'', 500), w)
         else if endpoint req = ''/add_files/migrate_files''
         then ((ok_response, 200), sim_migrate hs k w)
         else ((ok_response, 200), sim_delete hs k w)
     | Hash_payload h k \<Rightarrow>
         if h = ''B'' then ((error_response ''file B is locked'', 500), w)
         else if endpoint req = ''/add_files/migrate_files''
         then ((ok_response, 200), sim_migrate [h] k w)
         else ((ok_response, 200), sim_delete [h] k w))"

definition example_ctx :: exec_ctx where
  "example_ctx = \<lparr>api_address = ''127.0.0.1:45869'',
     available_services = [\<lparr>service_key = code_points ''d'', service_type = Some 2\<rparr>,
                           \<lparr>service_key = code_points ''e'', service_type = Some 2\<rparr>,
                           \<lparr>service_key = code_points ''t'', service_type = Some 5\<rparr>]\<rparr>"

definition example_world :: world where
  "example_world =
    [(''A'', [code_points ''e'', code_points ''t'']), (''B'', [code_points ''e'']),
     (''C'', [code_points ''d''])]"

definition example_items :: "string list" where
  "example_items = [''0'', ''1'', ''2'', ''3'', ''4'', ''B'', ''6'', ''7'', ''8'', ''9'']"

text \<open>
  A client that answers as \<open>sim_api\<close>, except that its metadata answers leave out the
  file \<open>h\<close>; and the calls, the errors and the client state of the copy phase of the
  example below.
\<close>

definition sim_api_omitting :: "string \<Rightarrow> world api" where
  "sim_api_omitting h w req =
    (case payload req of
       Metadata_params hs \<Rightarrow>
         ((\<lparr>success = True, message = None,
            metadata = Some (map (sim_meta w) (filter (\<lambda>h'. h' \<noteq> h) hs))\<rparr>, 200), w)
     | _ \<Rightarrow> sim_api w req)"

definition example_copy_calls :: call_log where
  "example_copy_calls =
    [(\<lparr>endpoint = ''/add_files/migrate_files'', http_method = ''POST'',
       payload = Hashes_payload [''A'', ''B'', ''C''] (code_points ''d'')\<rparr>,
      error_response ''bad file in batch'', 500),
     (\<lparr>endpoint = ''/add_files/migrate_files'', http_method = ''POST'',
       payload = Hash_payload ''A'' (code_points ''d'')\<rparr>, ok_response, 200),
     (\<lparr>endpoint = ''/add_files/migrate_files'', http_method = ''POST'',
       payload = Hash_payload ''B'' (code_points ''d'')\<rparr>,
      error_response ''file B is locked'', 500),
     (\<lparr>endpoint = ''/add_files/migrate_files'', http_method = ''POST'',
       payload = Hash_payload ''C'' (code_points ''d'')\<rparr>, ok_response, 200)]"

definition example_copy_errors :: errors_map where
  "example_copy_errors =
    [(''B'', ''copy'', [Copy_fail (code_points ''d'') (Message ''file B is locked'') (Some 500)])]"

definition example_copied_world :: world where
  "example_copied_world = sim_migrate [''A'', ''C''] (code_points ''d'') example_world"

definition example_verify_call :: "request \<times> response \<times> int" where
  "example_verify_call =
    (\<lparr>endpoint = ''/get_files/file_metadata'', http_method = ''GET'',
      payload = Metadata_params [''A'', ''C'']\<rparr>,
     \<lparr>success = True, message = None,
      metadata = Some [sim_meta example_copied_world ''A'']\<rparr>, 200)"

definition example_verify_call_complete :: "request \<times> response \<times> int" where
  "example_verify_call_complete =
    (\<lparr>endpoint = ''/get_files/file_metadata'', http_method = ''GET'',
      payload = Metadata_params [''A'', ''C'']\<rparr>,
     \<lparr>success = True, message = None,
      metadata = Some [sim_meta example_copied_world ''A'', sim_meta example_copied_world ''C'']\<rparr>,
     200)"

subsection \<open>Batches\<close>











lemma batch_api_call_with_retry_example:
  "fst (batch_api_call_with_retry sim_api example_ctx ''/add_files/migrate_files'' ''POST''
     example_items 4 (\<lambda>bh. Hashes_payload bh (code_points ''d'')) (\<lambda>sh. Hash_payload sh (code_points ''d''))
     (example_world, []))
   = Inr \<lparr>successful_items = [''0'', ''1'', ''2'', ''3'', ''4'', ''6'', ''7'', ''8'', ''9''],
          failed_items_with_errors = [(''B'', Message ''file B is locked'', Some 500)]\<rparr>"
  by code_simp



subsection \<open>The destination keys of force_in\<close>

text \<open>
  C9 (as amended). When \<open>force_in_services\<close> is given at least one candidate and a
  destination-key argument that is not a list, is empty, or holds an entry that is not
  a string or is blank, it returns \<open>success = False\<close> with the critical message as its
  only overall error, no per-file result, zero counts for the three phases, and makes
  no API call: the client state and the call log are unchanged.
\<close>

theorem force_in_services_invalid_destinations:
  assumes "files_metadata_list \<noteq> []"
    and "keys = Not_a_list \<or> keys = Key_list []
         \<or> (\<exists>ks k. keys = Key_list ks \<and> k \<in> set ks
               \<and> (k = Non_string \<or> (\<exists>s. k = Str s \<and> (\<forall>ch \<in> set s. isspace ch))))"
  shows "force_in_services api ord c files_metadata_list keys batch_size st =
     (Inr \<lparr>success' = False, files_fully_successful = [], files_with_errors = [],
           initial_candidates = length files_metadata_list, copied_phase_success_count = 0,
           verified_phase_success_count = 0, deleted_phase_success_count = 0,
           overall_errors = [Invalid_destination_keys keys]\<rparr>, st)"
proof -
  from assms(2) have "\<not> valid_destination_keys keys"
    by (fastforce simp: valid_destination_keys_def is_valid_key_def split: key_value.splits)
  with assms(1) show ?thesis by (simp add: force_in_services_def summary_def)
qed

theorem force_in_services_invalid_destinations_witness:
  "force_in_services sim_api insertion_order example_ctx [sim_meta example_world ''A'']
     (Key_list [Str (code_points ''d''), Str [160, 8195]]) 64 (example_world, []) =
     (Inr \<lparr>success' = False, files_fully_successful = [], files_with_errors = [],
           initial_candidates = 1, copied_phase_success_count = 0,
           verified_phase_success_count = 0, deleted_phase_success_count = 0,
           overall_errors = [Invalid_destination_keys (Key_list [Str (code_points ''d''), Str [160, 8195]])]\<rparr>,
      (example_world, []))"
proof -
  have a: "[sim_meta example_world ''A''] \<noteq> []" by simp
  have "\<forall>ch \<in> set [160, 8195]. isspace ch" by (simp add: isspace_def)
  then have b: "Key_list [Str (code_points ''d''), Str [160, 8195]] = Not_a_list \<or> Key_list [Str (code_points ''d''), Str [160, 8195]] = Key_list []
         \<or> (\<exists>ks k. Key_list [Str (code_points ''d''), Str [160, 8195]] = Key_list ks \<and> k \<in> set ks
               \<and> (k = Non_string \<or> (\<exists>s. k = Str s \<and> (\<forall>ch \<in> set s. isspace ch))))"
    by auto
  from force_in_services_invalid_destinations
    [OF a b, of sim_api insertion_order example_ctx 64 "(example_world, [])"]
  show ?thesis by simp
qed

text \<open>
  C9 as stated fails when there is no candidate: the function returns before it looks
  at the destination keys, with \<open>success = True\<close> and no error, here for an empty key
  list.
\<close>

theorem force_in_services_no_candidates_counterexample:
  "force_in_services sim_api insertion_order example_ctx [] (Key_list []) 64
     (example_world, []) =
     (Inr \<lparr>success' = True, files_fully_successful = [], files_with_errors = [],
           initial_candidates = 0, copied_phase_success_count = 0,
           verified_phase_success_count = 0, deleted_phase_success_count = 0,
           overall_errors = []\<rparr>,
      (example_world, []))"
  by (simp add: force_in_services_def summary_def)

subsection \<open>The three phases of force_in\<close>

lemma example_valid_keys: "valid_destination_keys (Key_list [Str (code_points ''d'')])"
  by (simp add: valid_destination_keys_def is_valid_key_def isspace_def code_points_def)

lemma example_key_strings: "key_strings (Key_list [Str (code_points ''d'')]) = [code_points ''d'']"
  by simp

lemma example_local_keys:  "map service_key (filter (\<lambda>s. service_type s = Some 2) (available_services example_ctx))
     = [code_points ''d'', code_points ''e'']"
  by (simp add: example_ctx_def)

lemma example_candidates:  "remdups (candidate_hashes (map (sim_meta example_world) [''A'', ''B'', ''C'']))
     = [''A'', ''B'', ''C'']"
  by code_simp

lemma example_code_points: "code_points ''d'' = [100]" by code_simp

lemma example_copy_phase:
  "copy_phase (sim_api_omitting ''C'') insertion_order example_ctx 64 [code_points ''d'']
      (([''A'', ''B'', ''C''], []), (example_world, [])) =
     (Inr ([''A'', ''C''], example_copy_errors), (example_copied_world, example_copy_calls))"
  by code_simp

lemma example_fetch_metadata:
  "fetch_metadata (sim_api_omitting ''C'') example_ctx [''A'', ''C''] 256
      (example_copied_world, example_copy_calls) =
     (Inr ([sim_meta example_copied_world ''A''], []),
      (example_copied_world,
       example_copy_calls @
       [(\<lparr>endpoint = ''/get_files/file_metadata'', http_method = ''GET'',
          payload = Metadata_params [''A'', ''C'']\<rparr>,
         \<lparr>success = True, message = None,
          metadata = Some [sim_meta example_copied_world ''A'']\<rparr>, 200)]))"
  by code_simp

lemma example_verify:
  "fold (verify_meta [code_points ''d''] [''A'', ''C'']) [sim_meta example_copied_world ''A'']
     ([], example_copy_errors) = ([''A''], example_copy_errors)"
  by code_simp

lemma example_delete_prep:
  "fold (delete_prep insertion_order [code_points ''d'', code_points ''e''] [code_points ''d'']
           [sim_meta example_copied_world ''A''] [''A''])
     [''A''] ([''A''], example_copy_errors, []) =
   ([''A''], example_copy_errors, [(code_points ''e'', [''A''])])"
  by code_simp

lemma example_delete_phase:
  "delete_phase (sim_api_omitting ''C'') example_ctx 64 [(code_points ''e'', [''A''])]
     (([''A''], example_copy_errors),
      (example_copied_world,
       example_copy_calls @
       [(\<lparr>endpoint = ''/get_files/file_metadata'', http_method = ''GET'',
          payload = Metadata_params [''A'', ''C'']\<rparr>,
         \<lparr>success = True, message = None,
          metadata = Some [sim_meta example_copied_world ''A'']\<rparr>, 200)])) =
   (Inr ([''A''], example_copy_errors),
    (sim_delete [''A''] (code_points ''e'') example_copied_world,
     example_copy_calls @
       [(\<lparr>endpoint = ''/get_files/file_metadata'', http_method = ''GET'',
          payload = Metadata_params [''A'', ''C'']\<rparr>,
         \<lparr>success = True, message = None,
          metadata = Some [sim_meta example_copied_world ''A'']\<rparr>, 200),
        (\<lparr>endpoint = ''/add_files/delete_files'', http_method = ''POST'',
          payload = Hashes_payload [''A''] (code_points ''e'')\<rparr>, ok_response, 200)]))"
  by code_simp

lemma example_fully:
  "filter (\<lambda>h_v. \<not> needed_del [(code_points ''e'', [''A''])] h_v \<or> h_v \<in> set [''A'']) [''A'']
     = [''A'']"
  "length example_copy_errors = 1"
  by (simp_all add: example_copy_errors_def)

lemma insertion_order_simps:
  "copied_order insertion_order hs = hs"
  "verified_order insertion_order hs = hs"
  "to_delete_order insertion_order h ks = ks"
  by (simp_all add: insertion_order_def)

lemma meta_fetch_failures_Nil: "meta_fetch_failures [] acc = acc"
  by (simp add: meta_fetch_failures_def)

text \<open>
  C4 fails when a successful metadata answer leaves a file out. Files \<open>A\<close>, \<open>B\<close> and
  \<open>C\<close> are the candidates and \<open>d\<close> is the destination. \<open>B\<close> fails the copy and is
  recorded under \<open>copy\<close>; \<open>A\<close> and \<open>C\<close> are copied, and the metadata of both is requested.
  The answer holds the metadata of \<open>A\<close> only: \<open>C\<close> is not verified, takes no part in
  the delete phase and is not among the fully successful files, and nothing is recorded
  for it in \<open>files_with_errors\<close>.
\<close>

theorem force_in_services_unverified_file_unrecorded:
  "force_in_services (sim_api_omitting ''C'') insertion_order example_ctx
       (map (sim_meta example_world) [''A'', ''B'', ''C'']) (Key_list [Str (code_points ''d'')]) 64
       (example_world, []) =
     (Inr \<lparr>success' = False, files_fully_successful = [''A''],
           files_with_errors = example_copy_errors,
           initial_candidates = 3, copied_phase_success_count = 2,
           verified_phase_success_count = 1, deleted_phase_success_count = 1,
           overall_errors = []\<rparr>,
      (sim_delete [''A''] (code_points ''e'') example_copied_world,
       example_copy_calls @
       [example_verify_call,
        (\<lparr>endpoint = ''/add_files/delete_files'', http_method = ''POST'',
          payload = Hashes_payload [''A''] (code_points ''e'')\<rparr>, ok_response, 200)]))"
proof -
  let ?api = "sim_api_omitting ''C''"
  let ?d = "code_points ''d''" and ?e = "code_points ''e''"
  let ?metas = "map (sim_meta example_world) [''A'', ''B'', ''C'']"
  have ne: "?metas \<noteq> []" "length ?metas = 3" "[''A'', ''C''] \<noteq> []" "[''A''] \<noteq> []"
    "length [''A'', ''C''] = 2" "length [''A''] = 1"
    by simp_all
  have 1: "force_in_services ?api insertion_order example_ctx ?metas (Key_list [Str ?d]) 64
      (example_world, []) =
    verify_stage ?api insertion_order example_ctx 64 3 [?d, ?e] [?d] [''A'', ''C'']
      example_copy_errors (example_copied_world, example_copy_calls)"
    unfolding force_in_services_def Let_def example_key_strings example_local_keys example_candidates example_copy_phase ne
    using example_valid_keys by (simp only: if_False if_True not_True_eq_False prod.case sum.case ne)
  have 2: "verify_stage ?api insertion_order example_ctx 64 3 [?d, ?e] [?d] [''A'', ''C'']
      example_copy_errors (example_copied_world, example_copy_calls) =
    delete_stage ?api insertion_order example_ctx 64 3 [?d, ?e] [?d] 2
      [sim_meta example_copied_world ''A''] [''A''] example_copy_errors
      (example_copied_world, example_copy_calls @ [example_verify_call])"
    unfolding verify_stage_def Let_def insertion_order_simps example_fetch_metadata [folded example_verify_call_def]
    by (simp only: prod.case sum.case meta_fetch_failures_Nil example_verify ne if_False)
  have 3: "delete_stage ?api insertion_order example_ctx 64 3 [?d, ?e] [?d] 2
      [sim_meta example_copied_world ''A''] [''A''] example_copy_errors
      (example_copied_world, example_copy_calls @ [example_verify_call]) =
     (Inr \<lparr>success' = False, files_fully_successful = [''A''],
           files_with_errors = example_copy_errors,
           initial_candidates = 3, copied_phase_success_count = 2,
           verified_phase_success_count = 1, deleted_phase_success_count = 1,
           overall_errors = []\<rparr>,
      (sim_delete [''A''] (code_points ''e'') example_copied_world,
       example_copy_calls @
       [example_verify_call,
        (\<lparr>endpoint = ''/add_files/delete_files'', http_method = ''POST'',
          payload = Hashes_payload [''A''] (code_points ''e'')\<rparr>, ok_response, 200)]))"
    unfolding delete_stage_def Let_def insertion_order_simps example_delete_prep
    by (simp only: prod.case sum.case example_delete_phase [folded example_verify_call_def] example_fully ne summary_def)
       simp
  show ?thesis unfolding 1 2 3 ..
qed

lemma complete_copy_phase:
  "copy_phase sim_api insertion_order example_ctx 64 [code_points ''d'']
      (([''A'', ''B'', ''C''], []), (example_world, [])) =
     (Inr ([''A'', ''C''], example_copy_errors), (example_copied_world, example_copy_calls))"
  by code_simp

lemma complete_fetch_metadata:
  "fetch_metadata sim_api example_ctx [''A'', ''C''] 256
      (example_copied_world, example_copy_calls) =
     (Inr ([sim_meta example_copied_world ''A'', sim_meta example_copied_world ''C''], []),
      (example_copied_world, example_copy_calls @ [example_verify_call_complete]))"
  by code_simp

lemma complete_verify:
  "fold (verify_meta [code_points ''d''] [''A'', ''C''])
     [sim_meta example_copied_world ''A'', sim_meta example_copied_world ''C'']
     ([], example_copy_errors) = ([''A'', ''C''], example_copy_errors)"
  by code_simp

lemma complete_delete_prep:
  "fold (delete_prep insertion_order [code_points ''d'', code_points ''e''] [code_points ''d'']
           [sim_meta example_copied_world ''A'', sim_meta example_copied_world ''C'']
           [''A'', ''C''])
     [''A'', ''C''] ([''A'', ''C''], example_copy_errors, []) =
   ([''A'', ''C''], example_copy_errors, [(code_points ''e'', [''A''])])"
  by code_simp

lemma complete_delete_phase:
  "delete_phase sim_api example_ctx 64 [(code_points ''e'', [''A''])]
     (([''A'', ''C''], example_copy_errors),
      (example_copied_world, example_copy_calls @ [example_verify_call_complete])) =
   (Inr ([''A'', ''C''], example_copy_errors),
    (sim_delete [''A''] (code_points ''e'') example_copied_world,
     example_copy_calls @
       [example_verify_call_complete,
        (\<lparr>endpoint = ''/add_files/delete_files'', http_method = ''POST'',
          payload = Hashes_payload [''A''] (code_points ''e'')\<rparr>, ok_response, 200)]))"
  by code_simp

lemma complete_fully:
  "filter (\<lambda>h_v. \<not> needed_del [(code_points ''e'', [''A''])] h_v \<or> h_v \<in> set [''A'', ''C''])
     [''A'', ''C''] = [''A'', ''C'']"
  by simp

text \<open>
  With the complete metadata answer of \<open>sim_api\<close> the same call does what C4 says: \<open>B\<close>
  is recorded under \<open>copy\<close> and is in no later call, and \<open>A\<close> and \<open>C\<close> are verified and
  fully successful.
\<close>

lemma force_in_services_example:
  "force_in_services sim_api insertion_order example_ctx
       (map (sim_meta example_world) [''A'', ''B'', ''C'']) (Key_list [Str (code_points ''d'')]) 64
       (example_world, []) =
     (Inr \<lparr>success' = False, files_fully_successful = [''A'', ''C''],
           files_with_errors = example_copy_errors,
           initial_candidates = 3, copied_phase_success_count = 2,
           verified_phase_success_count = 2, deleted_phase_success_count = 2,
           overall_errors = []\<rparr>,
      (sim_delete [''A''] (code_points ''e'') example_copied_world,
       example_copy_calls @
       [example_verify_call_complete,
        (\<lparr>endpoint = ''/add_files/delete_files'', http_method = ''POST'',
          payload = Hashes_payload [''A''] (code_points ''e'')\<rparr>, ok_response, 200)]))"
proof -
  let ?d = "code_points ''d''" and ?e = "code_points ''e''"
  let ?metas = "map (sim_meta example_world) [''A'', ''B'', ''C'']"
  let ?fresh = "[sim_meta example_copied_world ''A'', sim_meta example_copied_world ''C'']"
  have ne: "?metas \<noteq> []" "length ?metas = 3" "[''A'', ''C''] \<noteq> []"
    "length [''A'', ''C''] = 2"
    by simp_all
  have 1: "force_in_services sim_api insertion_order example_ctx ?metas (Key_list [Str ?d]) 64
      (example_world, []) =
    verify_stage sim_api insertion_order example_ctx 64 3 [?d, ?e] [?d] [''A'', ''C'']
      example_copy_errors (example_copied_world, example_copy_calls)"
    unfolding force_in_services_def Let_def example_key_strings example_local_keys
      example_candidates complete_copy_phase ne
    using example_valid_keys
    by (simp only: if_False if_True not_True_eq_False prod.case sum.case ne)
  have 2: "verify_stage sim_api insertion_order example_ctx 64 3 [?d, ?e] [?d] [''A'', ''C'']
      example_copy_errors (example_copied_world, example_copy_calls) =
    delete_stage sim_api insertion_order example_ctx 64 3 [?d, ?e] [?d] 2 ?fresh [''A'', ''C'']
      example_copy_errors (example_copied_world, example_copy_calls @ [example_verify_call_complete])"
    unfolding verify_stage_def Let_def insertion_order_simps complete_fetch_metadata
    by (simp only: prod.case sum.case meta_fetch_failures_Nil complete_verify ne if_False)
  have 3: "delete_stage sim_api insertion_order example_ctx 64 3 [?d, ?e] [?d] 2 ?fresh
      [''A'', ''C''] example_copy_errors
      (example_copied_world, example_copy_calls @ [example_verify_call_complete]) =
     (Inr \<lparr>success' = False, files_fully_successful = [''A'', ''C''],
           files_with_errors = example_copy_errors,
           initial_candidates = 3, copied_phase_success_count = 2,
           verified_phase_success_count = 2, deleted_phase_success_count = 2,
           overall_errors = []\<rparr>,
      (sim_delete [''A''] (code_points ''e'') example_copied_world,
       example_copy_calls @
       [example_verify_call_complete,
        (\<lparr>endpoint = ''/add_files/delete_files'', http_method = ''POST'',
          payload = Hashes_payload [''A''] (code_points ''e'')\<rparr>, ok_response, 200)]))"
    unfolding delete_stage_def Let_def insertion_order_simps complete_delete_prep
    by (simp only: prod.case sum.case complete_delete_phase complete_fully example_fully ne
        summary_def) simp
  show ?thesis unfolding 1 2 3 ..
qed

end
